theory Spec2Isabelle
  imports Main "HOL-Library.Sublist"
begin

section \<open>Python values, errors and the loaded configuration\<close>

text \<open>
  The two scripts of the repository (\<^verbatim>\<open>llama_evaluate.py\<close> and \<^verbatim>\<open>finetune.py\<close>) run top to
  bottom at module level. Each block of module-level statements is embedded as a function
  from the names it reads to the names it binds. Every Python exception is a value of
  \<open>error\<close>; a block that can raise returns \<open>error + 'a\<close>, with \<open>Inl\<close> for the exception.

  A Python string is a list of characters: \<^verbatim>\<open>len\<close> is \<open>length\<close>, \<^verbatim>\<open>+\<close> is \<open>@\<close>, and a
  slice is \<open>take\<close>, \<open>drop\<close> or \<open>butlast\<close>. One \<open>char\<close> stands for one character of the
  Python string; nothing below depends on which characters a text holds, apart from the
  ASCII characters that the parser and the templates look for.
\<close>

datatype error =
    SystemExit
  | KeyError string
  | AttributeError string
  | TypeError
  | IndexError
  | ExternalError string

text \<open>
  The values that a YAML document and an argparse namespace hold: \<^verbatim>\<open>None\<close>, booleans,
  integers, strings and nested mappings (an association list, looked up by \<open>map_of\<close>).
  Floats and sequences, which the evaluation script reads from no field, are left out.
\<close>

datatype pyval =
    PNone
  | PBool bool
  | PInt int
  | PStr string
  | PDict "(string \<times> pyval) list"

text \<open>Python's truth value of an object, as used by \<^verbatim>\<open>x if x else y\<close>.\<close>

fun truthy :: "pyval \<Rightarrow> bool" where
  "truthy PNone = False"
| "truthy (PBool b) = b"
| "truthy (PInt i) = (i \<noteq> 0)"
| "truthy (PStr s) = (s \<noteq> [])"
| "truthy (PDict kvs) = (kvs \<noteq> [])"

text \<open>
  \<^verbatim>\<open>d[key]\<close>: a mapping raises \<^verbatim>\<open>KeyError\<close> on a missing key; \<^verbatim>\<open>None\<close>, a boolean and an
  integer are not subscriptable; a string subscripted by a string raises \<^verbatim>\<open>TypeError\<close> too.
\<close>

fun subscript :: "pyval \<Rightarrow> string \<Rightarrow> error + pyval" where
  "subscript (PDict kvs) k = (case map_of kvs k of None \<Rightarrow> Inl (KeyError k) | Some v \<Rightarrow> Inr v)"
| "subscript _ k = Inl TypeError"

text \<open>Sequencing of statements that can raise: the first exception ends the block.\<close>

definition bind_result :: "error + 'a \<Rightarrow> ('a \<Rightarrow> error + 'b) \<Rightarrow> error + 'b" where
  "bind_result r f = (case r of Inl e \<Rightarrow> Inl e | Inr v \<Rightarrow> f v)"

section \<open>The command line of the evaluation script (\<^verbatim>\<open>parse_args\<close>)\<close>

text \<open>
  An \<^verbatim>\<open>argparse.Namespace\<close> is a finite map from attribute names to values; reading an
  attribute that was never set raises \<^verbatim>\<open>AttributeError\<close>.
\<close>

type_synonym namespace = "string \<rightharpoonup> pyval"

definition getattr :: "namespace \<Rightarrow> string \<Rightarrow> error + pyval" where
  "getattr ns name = (case ns name of None \<Rightarrow> Inl (AttributeError name) | Some v \<Rightarrow> Inr v)"

definition setattr :: "namespace \<Rightarrow> string \<Rightarrow> pyval \<Rightarrow> namespace" where
  "setattr ns name v = ns(name \<mapsto> v)"

datatype arg_type = TStr | TInt | TBool

record action =
  option_string :: string
  dest :: string
  atype :: arg_type

text \<open>
  The six \<^verbatim>\<open>add_argument\<close> calls of \<^verbatim>\<open>parse_args\<close>, in source order. The destination of an
  option is its name without the leading dashes.
\<close>

definition declared_actions :: "action list" where
  "declared_actions =
    [\<lparr>option_string = ''--model_path'', dest = ''model_path'', atype = TStr\<rparr>,
     \<lparr>option_string = ''--new_model_path'', dest = ''new_model_path'', atype = TStr\<rparr>,
     \<lparr>option_string = ''--dataset_path'', dest = ''dataset_path'', atype = TStr\<rparr>,
     \<lparr>option_string = ''--dataset_config'', dest = ''dataset_config'', atype = TStr\<rparr>,
     \<lparr>option_string = ''--num_shots'', dest = ''num_shots'', atype = TInt\<rparr>,
     \<lparr>option_string = ''--finetune'', dest = ''finetune'', atype = TBool\<rparr>]"

datatype recognised = Help | Store action

text \<open>
  The option strings the parser knows: the help option that \<^verbatim>\<open>ArgumentParser\<close> adds by
  itself, then the declared ones.
\<close>

definition option_table :: "(string \<times> recognised) list" where
  "option_table =
    [(''-h'', Help), (''--help'', Help)] @
    map (\<lambda>a. (option_string a, Store a)) declared_actions"

text \<open>
  The ASCII digits, as the parser's pattern for negative numbers looks for them, and the
  number that a string of digits spells.
\<close>

definition is_digit :: "char \<Rightarrow> bool" where
  "is_digit c = (48 \<le> (of_char c :: nat) \<and> (of_char c :: nat) \<le> 57)"

definition digits_value :: "string \<Rightarrow> nat" where
  "digits_value ds = foldl (\<lambda>acc c. 10 * acc + ((of_char c :: nat) - 48)) 0 ds"

definition all_digits :: "string \<Rightarrow> bool" where
  "all_digits ds = (ds \<noteq> [] \<and> list_all is_digit ds)"

text \<open>
  The \<^verbatim>\<open>type=\<close> conversion of an option's argument. \<^verbatim>\<open>type=int\<close> calls Python's built-in
  \<^verbatim>\<open>int\<close> on the argument string. The built-in is not code of the script, so it is the
  parameter \<open>int_of\<close> of the parser and of everything that calls the parser: \<open>int_of s\<close>
  is the integer that \<^verbatim>\<open>int(s)\<close> returns, and \<open>None\<close> when \<^verbatim>\<open>int(s)\<close> raises
  \<^verbatim>\<open>ValueError\<close>, which is a usage error: the parser exits. \<^verbatim>\<open>type=bool\<close> calls \<^verbatim>\<open>bool\<close>
  on the argument string, which is true for every non-empty string.
\<close>

fun convert :: "(string \<Rightarrow> int option) \<Rightarrow> arg_type \<Rightarrow> string \<Rightarrow> error + pyval" where
  "convert int_of TStr s = Inr (PStr s)"
| "convert int_of TInt s =
    (case int_of s of None \<Rightarrow> Inl SystemExit | Some i \<Rightarrow> Inr (PInt i))"
| "convert int_of TBool s = Inr (PBool (s \<noteq> []))"

text \<open>\<^verbatim>\<open>s.split('=', 1)\<close>: the text before the first equals sign, and the text after it if any.\<close>

fun split_eq :: "string \<Rightarrow> string \<times> string option" where
  "split_eq [] = ([], None)"
| "split_eq (c # cs) =
    (if c = CHR ''='' then ([], Some cs)
     else (case split_eq cs of (name, rest) \<Rightarrow> (c # name, rest)))"

text \<open>
  How argparse classifies one command-line word (\<^verbatim>\<open>_parse_optional\<close>): a positional
  argument, a known option (with the argument attached by an equals sign, if any), an
  unknown option, or an abbreviation that fits several options.
\<close>

datatype arg_class =
    Positional
  | Optional_Known recognised "string option"
  | Optional_Unknown
  | Ambiguous

text \<open>
  The regular expression for words that look like negative numbers:
  a dash and digits, or a dash, digits, a dot and digits.
\<close>

definition negative_number_like :: "string \<Rightarrow> bool" where
  "negative_number_like s =
    (case s of
       [] \<Rightarrow> False
     | c # cs \<Rightarrow> c = CHR ''-'' \<and>
         (all_digits cs \<or>
          (case dropWhile is_digit cs of
             [] \<Rightarrow> False
           | d # frac \<Rightarrow> d = CHR ''.'' \<and> all_digits frac)))"

text \<open>
  The options a word abbreviates (\<^verbatim>\<open>_get_option_tuples\<close>): for a word with two dashes,
  every option that starts with the text before the equals sign; for a word with one
  dash, the option equal to its first two characters (the remainder is then its attached
  argument) and every option that starts with the whole word.
\<close>

definition get_option_tuples :: "string \<Rightarrow> (recognised \<times> string option) list" where
  "get_option_tuples s =
    (if take 2 s = ''--'' then
       (case split_eq s of (option_prefix, explicit_arg) \<Rightarrow>
          map (\<lambda>(opt, r). (r, explicit_arg))
            (filter (\<lambda>(opt, r). prefix option_prefix opt) option_table))
     else
       concat (map (\<lambda>(opt, r).
          if opt = take 2 s then [(r, Some (drop 2 s))]
          else if prefix s opt then [(r, None)]
          else []) option_table))"

definition parse_optional :: "string \<Rightarrow> arg_class" where
  "parse_optional s =
    (if s = [] then Positional
     else if hd s \<noteq> CHR ''-'' then Positional
     else (case map_of option_table s of
         Some r \<Rightarrow> Optional_Known r None
       | None \<Rightarrow>
          if length s = 1 then Positional
          else (case split_eq s of (name, explicit_arg) \<Rightarrow>
            (case (explicit_arg, map_of option_table name) of
               (Some v, Some r) \<Rightarrow> Optional_Known r (Some v)
             | _ \<Rightarrow>
               (case get_option_tuples s of
                  [(r, e)] \<Rightarrow> Optional_Known r e
                | _ # _ # _ \<Rightarrow> Ambiguous
                | [] \<Rightarrow>
                    if negative_number_like s then Positional
                    else if CHR '' '' \<in> set s then Positional
                    else Optional_Unknown)))))"

text \<open>
  A word can be the argument of the option before it when it is classified as positional.
  The bare separator \<^verbatim>\<open>--\<close> is not an argument.
\<close>

definition is_argument :: "string \<Rightarrow> bool" where
  "is_argument s = (s \<noteq> ''--'' \<and> parse_optional s = Positional)"

definition store ::
  "(string \<Rightarrow> int option) \<Rightarrow> action \<Rightarrow> string \<Rightarrow> namespace \<Rightarrow> error + namespace" where
  "store int_of act v ns =
    bind_result (convert int_of (atype act) v) (\<lambda>pv. Inr (setattr ns (dest act) pv))"

text \<open>
  The parser's loop over the command line, left to right. The parser declares no
  positional argument, so a positional word outside an option's argument place, an
  unknown option, an ambiguous abbreviation, a missing or an invalid argument are usage
  errors: the parser prints a message and exits, and so does the help option. A word
  after the bare separator \<^verbatim>\<open>--\<close> is positional, hence an error, and an option does not
  take its argument from behind the separator. A separator at the very end leaves the
  namespace as it is in the model; argparse 3.11 reports that separator as unrecognised
  and exits, so the model covers this run in addition to the runs of the parser.
\<close>

fun consume_args ::
  "(string \<Rightarrow> int option) \<Rightarrow> string list \<Rightarrow> namespace \<Rightarrow> error + namespace" where
  "consume_args int_of [] ns = Inr ns"
| "consume_args int_of [s] ns =
    (if s = ''--'' then Inr ns
     else (case parse_optional s of
         Optional_Known (Store act) (Some v) \<Rightarrow> store int_of act v ns
       | _ \<Rightarrow> Inl SystemExit))"
| "consume_args int_of (s # v # rest) ns =
    (if s = ''--'' then Inl SystemExit
     else (case parse_optional s of
         Optional_Known (Store act) (Some e) \<Rightarrow>
           bind_result (store int_of act e ns) (consume_args int_of (v # rest))
       | Optional_Known (Store act) None \<Rightarrow>
           if is_argument v then bind_result (store int_of act v ns) (consume_args int_of rest)
           else Inl SystemExit
       | _ \<Rightarrow> Inl SystemExit))"

text \<open>
  Before the loop the namespace holds the default of every declared action, which is
  \<^verbatim>\<open>None\<close> since no \<^verbatim>\<open>default=\<close> is given. The help action has no destination.
\<close>

definition initial_namespace :: namespace where
  "initial_namespace = map_of (map (\<lambda>a. (dest a, PNone)) declared_actions)"

definition parse_args :: "(string \<Rightarrow> int option) \<Rightarrow> string list \<Rightarrow> error + namespace" where
  "parse_args int_of argv = consume_args int_of argv initial_namespace"


section \<open>The configuration block of the evaluation script\<close>

text \<open>
  \<^verbatim>\<open>a.name if a.name else fallback\<close>: the attribute is read first (and raises when the
  namespace does not have it); the fallback is evaluated only when the attribute's value
  is false in Python's sense.
\<close>

definition flag_or :: "namespace \<Rightarrow> string \<Rightarrow> (error + pyval) \<Rightarrow> error + pyval" where
  "flag_or args name fallback =
    bind_result (getattr args name) (\<lambda>v. if truthy v then Inr v else fallback)"

record settings =
  model_path :: pyval
  new_model_path :: pyval
  dataset_path :: pyval
  dataset_config :: pyval
  num_shots :: pyval
  finetune :: pyval

text \<open>Lines 35 to 40 of \<^verbatim>\<open>llama_evaluate.py\<close>, one binding per line.\<close>

definition initialize_configurations :: "namespace \<Rightarrow> pyval \<Rightarrow> pyval \<Rightarrow> error + settings" where
  "initialize_configurations args model_cfg eval_cfg =
    bind_result (flag_or args ''model_path'' (subscript model_cfg ''model_path'')) (\<lambda>mp.
    bind_result (flag_or args ''new_model_path'' (subscript model_cfg ''new_model_path'')) (\<lambda>nmp.
    bind_result (flag_or args ''dataset_path'' (subscript model_cfg ''dataset_path'')) (\<lambda>dp.
    bind_result (flag_or args ''dataset_config'' (subscript model_cfg ''dataset_config'')) (\<lambda>dc.
    bind_result (flag_or args ''num_shots'' (subscript eval_cfg ''num_shots'')) (\<lambda>ns.
    bind_result (flag_or args ''finetune'' (Inr (PBool False))) (\<lambda>ft.
      Inr \<lparr>model_path = mp, new_model_path = nmp, dataset_path = dp,
           dataset_config = dc, num_shots = ns, finetune = ft\<rparr>))))))"

text \<open>
  Lines 29 to 40 in order: the command line is parsed, the three top-level sections of
  the loaded configuration are read, then the six bindings are made.
\<close>

definition effective_settings ::
  "(string \<Rightarrow> int option) \<Rightarrow> string list \<Rightarrow> pyval \<Rightarrow> error + settings" where
  "effective_settings int_of argv config =
    bind_result (parse_args int_of argv) (\<lambda>args.
    bind_result (subscript config ''model_config'') (\<lambda>model_cfg.
    bind_result (subscript config ''eval_config'') (\<lambda>eval_cfg.
    bind_result (subscript config ''access_token'') (\<lambda>access_token.
      initialize_configurations args model_cfg eval_cfg))))"

text \<open>Line 41: \<^verbatim>\<open>cot = args.cot if args.cot else eval_cfg['cot']\<close>.\<close>

definition cot_selection :: "namespace \<Rightarrow> pyval \<Rightarrow> error + pyval" where
  "cot_selection args eval_cfg = flag_or args ''cot'' (subscript eval_cfg ''cot'')"

text \<open>Lines 29 to 41 in order: the same with the binding of line 41 at the end.\<close>

definition setup_configurations ::
  "(string \<Rightarrow> int option) \<Rightarrow> string list \<Rightarrow> pyval \<Rightarrow> error + (settings \<times> pyval)" where
  "setup_configurations int_of argv config =
    bind_result (parse_args int_of argv) (\<lambda>args.
    bind_result (subscript config ''model_config'') (\<lambda>model_cfg.
    bind_result (subscript config ''eval_config'') (\<lambda>eval_cfg.
    bind_result (subscript config ''access_token'') (\<lambda>access_token.
    bind_result (initialize_configurations args model_cfg eval_cfg) (\<lambda>s.
    bind_result (cot_selection args eval_cfg) (\<lambda>cot.
      Inr (s, cot)))))))"

section \<open>The test dataset and the few-shot prompt\<close>

text \<open>
  The blocks after line 41 are embedded as functions of the values they read: the mode
  \<^verbatim>\<open>cot\<close> as a boolean (the script only tests its truth value), the shot count, the test
  split, and the results of the external calls.
\<close>

text \<open>
  A row of the translation dataset: the classical source, the modern gloss and the English
  reference. \<^verbatim>\<open>select_columns\<close> keeps the columns the mode needs, so an iterated row is a
  dictionary with exactly these keys. A dataset that lacks a selected column makes
  \<^verbatim>\<open>select_columns\<close> raise before any row is read, and is outside this model.
\<close>

record row =
  classical :: string
  modern :: string
  english :: string

definition select_columns :: "bool \<Rightarrow> row \<Rightarrow> (string \<times> string) list" where
  "select_columns cot r =
    (if cot then [(''classical'', classical r), (''modern'', modern r), (''english'', english r)]
     else [(''classical'', classical r), (''english'', english r)])"

text \<open>
  \<^verbatim>\<open>dataset.select(range(lo, hi))\<close> of the datasets library (as its 2.x releases
  implement it), for bounds that are not negative. An empty dataset is returned as it is. A range with \<open>hi < lo\<close> is empty and
  selects nothing. Otherwise the library takes the rows as one contiguous slice: it checks
  the first index \<open>lo\<close> and the last index \<open>hi - 1\<close> against the number of rows (also
  when \<open>lo = hi\<close>, where the slice is empty), raises \<^verbatim>\<open>IndexError\<close> when \<open>lo\<close> is not
  below the number of rows or \<open>hi\<close> is above it, and returns the slice. What the library
  does with the negative indices of a negative shot count is not modelled: shot counts
  are natural numbers here.
\<close>

definition select_range :: "'a list \<Rightarrow> nat \<Rightarrow> nat \<Rightarrow> error + 'a list" where
  "select_range ds lo hi =
    (if ds = [] then Inr []
     else if hi < lo then Inr []
     else if lo < length ds \<and> hi \<le> length ds then Inr (take (hi - lo) (drop lo ds))
     else Inl IndexError)"

text \<open>
  \<^verbatim>\<open>template.format(**kwargs)\<close> for a template whose replacement fields are plain names in
  braces, as the two templates of the script are: the text outside the braces is copied,
  a field is replaced by the value of its keyword, and a missing keyword raises
  \<^verbatim>\<open>KeyError\<close>. Doubled braces, conversions and format specifications do not occur in the
  templates and are not modelled.
\<close>

function format_str :: "string \<Rightarrow> (string \<times> string) list \<Rightarrow> error + string" where
  "format_str [] kwargs = Inr []"
| "format_str (c # cs) kwargs =
    (if c = CHR ''{'' then
       (case map_of kwargs (takeWhile (\<lambda>d. d \<noteq> CHR ''}'') cs) of
          None \<Rightarrow> Inl (KeyError (takeWhile (\<lambda>d. d \<noteq> CHR ''}'') cs))
        | Some v \<Rightarrow>
            bind_result (format_str (drop 1 (dropWhile (\<lambda>d. d \<noteq> CHR ''}'') cs)) kwargs)
              (\<lambda>r. Inr (v @ r)))
     else bind_result (format_str cs kwargs) (\<lambda>r. Inr (c # r)))"
  by pat_completeness auto
termination
  by (relation "measure (\<lambda>(t, kwargs). length t)")
     (auto simp: less_Suc_eq_le intro!: order_trans [OF diff_le_self length_dropWhile_le])

text \<open>\<^verbatim>\<open>sep.join(parts)\<close>.\<close>

fun join_str :: "string \<Rightarrow> string list \<Rightarrow> string" where
  "join_str sep [] = []"
| "join_str sep [x] = x"
| "join_str sep (x # y # ys) = x @ sep @ join_str sep (y # ys)"

text \<open>A list comprehension whose element expression can raise: the first exception ends it.\<close>

fun map_result :: "('a \<Rightarrow> error + 'b) \<Rightarrow> 'a list \<Rightarrow> error + 'b list" where
  "map_result f [] = Inr []"
| "map_result f (x # xs) =
    bind_result (f x) (\<lambda>y. bind_result (map_result f xs) (\<lambda>ys. Inr (y # ys)))"

text \<open>Lines 91 to 94: the template of the mode.\<close>

definition prompt_template :: "bool \<Rightarrow> string" where
  "prompt_template cot =
    (if cot then ''Classical: {classical}\<newline>Modern: {modern}\<newline>English: {english}''
     else ''Classical: {classical}\<newline>English: {english}'')"

text \<open>Lines 95 to 98: the example block, from the rows of \<^verbatim>\<open>dataset_examples\<close>.\<close>

definition prompt_examples :: "int \<Rightarrow> bool \<Rightarrow> row list \<Rightarrow> error + string" where
  "prompt_examples shots cot dataset_examples =
    (if shots = 0 then Inr []
     else bind_result
       (map_result (\<lambda>r. format_str (prompt_template cot) (select_columns cot r)) dataset_examples)
       (\<lambda>rendered. Inr (join_str ''\<newline>\<newline>'' rendered)))"

text \<open>
  Lines 88 to 98 in order: the example block as a function of the test split. Line 88
  selects the examples, line 89 selects the rows to translate (its result is not used for
  the block, but an exception it raises ends the run before the block is bound), and
  lines 95 to 98 bind the block.
\<close>

definition example_block :: "nat \<Rightarrow> bool \<Rightarrow> row list \<Rightarrow> error + string" where
  "example_block shots cot dataset_test =
    bind_result (select_range dataset_test 0 shots) (\<lambda>dataset_examples.
    bind_result (select_range dataset_test shots (length dataset_test)) (\<lambda>dataset_predict.
      prompt_examples (int shots) cot dataset_examples))"

text \<open>The instruction sentence of each mode (lines 107 and 112).\<close>

definition instruction :: "bool \<Rightarrow> string" where
  "instruction cot =
    (if cot then ''Translate the following sentence from classical Chinese into modern Chinese and then into English. Provide only the translation:''
     else ''Translate the following sentence from Classical Chinese into English. Provide only the translation:'')"

text \<open>
  The target row through the template with the answer fields empty (lines 108 and 113),
  before the slice \<^verbatim>\<open>[:-1]\<close>.
\<close>

definition render_target :: "bool \<Rightarrow> row \<Rightarrow> error + string" where
  "render_target cot r =
    (if cot then
       format_str (prompt_template cot) [(''classical'', classical r), (''modern'', []), (''english'', [])]
     else
       format_str (prompt_template cot) [(''classical'', classical r), (''english'', [])])"

text \<open>
  Lines 105 to 113: the prompt of one row. \<^verbatim>\<open>s[:-1]\<close> is \<open>butlast s\<close> (the empty string
  stays empty).
\<close>

definition build_prompt :: "bool \<Rightarrow> string \<Rightarrow> row \<Rightarrow> error + string" where
  "build_prompt cot examples r =
    bind_result (render_target cot r)
      (\<lambda>t. Inr (examples @ ''\<newline>'' @ instruction cot @ butlast t))"

text \<open>
  Lines 101 to 121: the loop over \<^verbatim>\<open>dataset_predict\<close>. The prompt goes through the
  tokenizer's chat template (a function of the external library, here a parameter)
  and is appended to \<^verbatim>\<open>prompts\<close>; the row's reference, wrapped in a list of its own, is
  appended to \<^verbatim>\<open>references\<close>.
\<close>

fun build_prompts ::
  "bool \<Rightarrow> (string \<Rightarrow> string) \<Rightarrow> string \<Rightarrow> row list \<Rightarrow> error + (string list \<times> string list list)" where
  "build_prompts cot chat examples [] = Inr ([], [])"
| "build_prompts cot chat examples (r # rs) =
    bind_result (build_prompt cot examples r) (\<lambda>p.
    bind_result (build_prompts cot chat examples rs) (\<lambda>(prompts, references).
      Inr (chat p # prompts, [english r] # references)))"

text \<open>
  Lines 88 to 121 for a test split \<^verbatim>\<open>dataset_test\<close> and a shot count \<open>shots\<close> (the value of
  \<^verbatim>\<open>num_shots\<close>): the first \<open>shots\<close> rows are the examples, the others are the rows to
  translate.
\<close>

definition prompt_stage ::
  "nat \<Rightarrow> bool \<Rightarrow> (string \<Rightarrow> string) \<Rightarrow> row list \<Rightarrow> error + (string list \<times> string list list)" where
  "prompt_stage shots cot chat dataset_test =
    bind_result (select_range dataset_test 0 shots) (\<lambda>dataset_examples.
    bind_result (select_range dataset_test shots (length dataset_test)) (\<lambda>dataset_predict.
    bind_result (prompt_examples (int shots) cot dataset_examples) (\<lambda>examples.
      build_prompts cot chat examples dataset_predict)))"

section \<open>Generation, scoring and the report\<close>

text \<open>
  The text-generation pipeline is external. Called on the list of prompts it returns a
  list of outputs; an output is the list of the sequences generated for one prompt, and
  \<^verbatim>\<open>output[0]['generated_text']\<close> is the text of the first. Line 134 pairs outputs with
  prompts by \<^verbatim>\<open>zip\<close> (which stops at the shorter list) and slices each text from the length
  of its prompt; \<^verbatim>\<open>s[n:]\<close> is \<open>drop n s\<close>.
\<close>

definition first_generated :: "string list \<Rightarrow> error + string" where
  "first_generated output = (case output of [] \<Rightarrow> Inl IndexError | g # _ \<Rightarrow> Inr g)"

definition predictions_of :: "string list list \<Rightarrow> string list \<Rightarrow> error + string list" where
  "predictions_of outputs prompts =
    map_result (\<lambda>(output, prompt).
        bind_result (first_generated output) (\<lambda>g. Inr (drop (length prompt) g)))
      (zip outputs prompts)"

text \<open>
  The three metrics of the evaluate library, in the order of the script. Loading a metric
  and computing it are external calls that can raise; they are parameters of the model.
  The run records what it printed and every call of \<^verbatim>\<open>compute\<close> with its arguments.
\<close>

datatype metric = Sacrebleu | Meteor | Chrf

record run =
  console :: "string list"
  calls :: "(metric \<times> string list \<times> string list list) list"

record ('h, 'r) evaluate_library =
  load :: "metric \<Rightarrow> error + 'h"
  compute :: "'h \<Rightarrow> string list \<Rightarrow> string list list \<Rightarrow> error + 'r"
  show_result :: "'r \<Rightarrow> string"

definition banner :: "metric \<Rightarrow> string" where
  "banner m =
    (case m of
       Sacrebleu \<Rightarrow> ''------------- sacrebleu_results -------------''
     | Meteor \<Rightarrow> ''------------- meteor_results -------------''
     | Chrf \<Rightarrow> ''------------- chrf_results -------------'')"

text \<open>
  One metric (for instance lines 137 to 140): load, compute, print the banner and the
  result. The result pairs the run so far with the exception that ended it, if any.
\<close>

definition score_metric ::
  "('h, 'r) evaluate_library \<Rightarrow> metric \<Rightarrow> string list \<Rightarrow> string list list \<Rightarrow> run \<Rightarrow> run \<times> error option" where
  "score_metric lib m predictions references st =
    (case load lib m of
       Inl e \<Rightarrow> (st, Some e)
     | Inr h \<Rightarrow>
        (case compute lib h predictions references of
           Inl e \<Rightarrow> (st\<lparr>calls := calls st @ [(m, predictions, references)]\<rparr>, Some e)
         | Inr r \<Rightarrow>
            (st\<lparr>calls := calls st @ [(m, predictions, references)],
                console := console st @ [banner m, show_result lib r]\<rparr>, None)))"

text \<open>
  Lines 137 to 150: the three metrics one after the other. The script has no
  \<^verbatim>\<open>try\<close> statement, so an exception of one metric ends the run there.
\<close>

definition evaluation ::
  "('h, 'r) evaluate_library \<Rightarrow> string list \<Rightarrow> string list list \<Rightarrow> run \<Rightarrow> run \<times> error option" where
  "evaluation lib predictions references st =
    (case score_metric lib Sacrebleu predictions references st of
       (st1, Some e) \<Rightarrow> (st1, Some e)
     | (st1, None) \<Rightarrow>
        (case score_metric lib Meteor predictions references st1 of
           (st2, Some e) \<Rightarrow> (st2, Some e)
         | (st2, None) \<Rightarrow> score_metric lib Chrf predictions references st2))"

text \<open>
  What one metric gives on given arguments: the metric is loaded and its \<^verbatim>\<open>compute\<close> is
  called on them (for instance lines 137 and 138, without the printing). The result is
  the exception of the load or of the computation, or the computed scores.
\<close>

definition metric_result ::
  "('h, 'r) evaluate_library \<Rightarrow> metric \<Rightarrow> string list \<Rightarrow> string list list \<Rightarrow> error + 'r" where
  "metric_result lib m predictions references =
    bind_result (load lib m) (\<lambda>h. compute lib h predictions references)"

text \<open>
  A metric succeeds on given arguments when both its load and its computation return.
  The calls that a stage adds to the run are those after the ones already recorded.
\<close>

definition succeeds ::
  "('h, 'r) evaluate_library \<Rightarrow> metric \<Rightarrow> string list \<Rightarrow> string list list \<Rightarrow> bool" where
  "succeeds lib m predictions references =
    (case load lib m of
       Inl e \<Rightarrow> False
     | Inr h \<Rightarrow> (case compute lib h predictions references of Inl e \<Rightarrow> False | Inr r \<Rightarrow> True))"

definition new_calls :: "run \<Rightarrow> run \<Rightarrow> (metric \<times> string list \<times> string list list) list" where
  "new_calls st st' = drop (length (calls st)) (calls st')"

definition computed :: "run \<Rightarrow> run \<Rightarrow> metric list" where
  "computed st st' = map fst (new_calls st st')"

text \<open>
  Lines 155 to 157: the loop over the indices. \<^verbatim>\<open>print(a, b)\<close> writes the two values with
  a blank between them. An index at or beyond the length of a list raises
  \<^verbatim>\<open>IndexError\<close>; what was printed before stays printed.
\<close>

fun print_examples ::
  "nat list \<Rightarrow> string list \<Rightarrow> string list list \<Rightarrow> string list \<Rightarrow> string list \<times> error option" where
  "print_examples [] predictions references out = (out, None)"
| "print_examples (i # later) predictions references out =
    (if i < length predictions then
       (if i < length references then
          (case references ! i of
             [] \<Rightarrow> (out @ [''system: '' @ predictions ! i], Some IndexError)
           | ref # _ \<Rightarrow>
               print_examples later predictions references
                 (out @ [''system: '' @ predictions ! i, ''reference: '' @ ref]))
        else (out @ [''system: '' @ predictions ! i], Some IndexError))
     else (out, Some IndexError))"

text \<open>Lines 152 to 157: an empty line, the banner, then the loop over \<^verbatim>\<open>range(10)\<close>.\<close>

definition report :: "string list \<Rightarrow> string list list \<Rightarrow> string list \<Rightarrow> string list \<times> error option" where
  "report predictions references out =
    print_examples [0..<10] predictions references
      (out @ [[], ''------------- example -------------''])"

section \<open>The saving block of the fine-tuning script\<close>

text \<open>
  The directories that \<^verbatim>\<open>save_pretrained\<close> writes, by path: adapter weights, full model
  weights and tokenizer files. Training, loading the base model and merging are external
  and are parameters: \<open>adapter\<close> is what the trainer holds after training, \<open>base\<close>
  the model loaded from \<^verbatim>\<open>model_path\<close>, \<open>merge\<close> the effect of
  \<^verbatim>\<open>merge_and_unload\<close> on the base model with an adapter.
\<close>

record ('w, 'm, 't) disk =
  adapters :: "string \<rightharpoonup> 'w"
  models :: "string \<rightharpoonup> 'm"
  tokenizers :: "string \<rightharpoonup> 't"

definition save_adapter :: "('w, 'm, 't) disk \<Rightarrow> string \<Rightarrow> 'w \<Rightarrow> ('w, 'm, 't) disk" where
  "save_adapter d path w = d\<lparr>adapters := (adapters d)(path \<mapsto> w)\<rparr>"

definition save_model :: "('w, 'm, 't) disk \<Rightarrow> string \<Rightarrow> 'm \<Rightarrow> ('w, 'm, 't) disk" where
  "save_model d path m = d\<lparr>models := (models d)(path \<mapsto> m)\<rparr>"

definition save_tokenizer :: "('w, 'm, 't) disk \<Rightarrow> string \<Rightarrow> 't \<Rightarrow> ('w, 'm, 't) disk" where
  "save_tokenizer d path t = d\<lparr>tokenizers := (tokenizers d)(path \<mapsto> t)\<rparr>"

text \<open>\<^verbatim>\<open>PeftModel.from_pretrained(model, path)\<close> reads the adapter saved at the path.\<close>

definition load_adapter :: "('w, 'm, 't) disk \<Rightarrow> string \<Rightarrow> error + 'w" where
  "load_adapter d path =
    (case adapters d path of None \<Rightarrow> Inl (ExternalError path) | Some w \<Rightarrow> Inr w)"

text \<open>
  Lines 118 to 134 of \<^verbatim>\<open>finetune.py\<close>: the adapter is saved, read back and merged into
  the base model; the merged model and the tokenizer are saved. The result is the disk
  and the two lines printed.
\<close>

definition save_and_merge ::
  "string \<Rightarrow> 'w \<Rightarrow> 'b \<Rightarrow> ('b \<Rightarrow> 'w \<Rightarrow> 'm) \<Rightarrow> 't \<Rightarrow> ('w, 'm, 't) disk
    \<Rightarrow> error + (('w, 'm, 't) disk \<times> string list)" where
  "save_and_merge new_model adapter base merge tokenizer d =
    (let new_model_path_lora = new_model @ ''-lora'';
         d1 = save_adapter d new_model_path_lora adapter;
         out1 = [''Model training complete and peft adapter saved to: '' @ new_model_path_lora]
     in bind_result (load_adapter d1 new_model_path_lora) (\<lambda>w.
          let d2 = save_model d1 new_model (merge base w);
              d3 = save_tokenizer d2 new_model tokenizer
          in Inr (d3, out1 @ [''Model load complete and full model saved to: '' @ new_model])))"

section \<open>Concrete inputs\<close>

text \<open>
  An instance of the integer conversion for the concrete runs below: Python's \<^verbatim>\<open>int\<close> on
  ASCII text. Blanks around the number are dropped; then come an optional sign and one or
  more digits, where a single underscore may stand between two digits. Digits and blanks
  outside ASCII, which \<^verbatim>\<open>int\<close> reads as well, are not part of this instance. The theorems
  about all runs are stated for every conversion \<open>int_of\<close> and do not depend on it.
\<close>

definition is_space :: "char \<Rightarrow> bool" where
  "is_space c = ((of_char c :: nat) \<in> {9, 10, 11, 12, 13, 28, 29, 30, 31, 32})"

definition strip :: "string \<Rightarrow> string" where
  "strip s = rev (dropWhile is_space (rev (dropWhile is_space s)))"

fun grouped_digits :: "string \<Rightarrow> string option" where
  "grouped_digits [] = None"
| "grouped_digits [c] = (if is_digit c then Some [c] else None)"
| "grouped_digits (c # d # cs) =
    (if \<not> is_digit c then None
     else if d = CHR ''_'' then
       (case grouped_digits cs of None \<Rightarrow> None | Some ds \<Rightarrow> Some (c # ds))
     else
       (case grouped_digits (d # cs) of None \<Rightarrow> None | Some ds \<Rightarrow> Some (c # ds)))"

definition ascii_int :: "string \<Rightarrow> int option" where
  "ascii_int s =
    (case strip s of
       [] \<Rightarrow> None
     | c # cs \<Rightarrow>
        (case grouped_digits (if c = CHR ''-'' \<or> c = CHR ''+'' then cs else c # cs) of
           None \<Rightarrow> None
         | Some ds \<Rightarrow>
            Some (if c = CHR ''-'' then - int (digits_value ds) else int (digits_value ds))))"

text \<open>A configuration document with the sections and fields the scripts read.\<close>

definition example_model_config :: pyval where
  "example_model_config = PDict
    [(''model_path'', PStr ''base''), (''new_model_path'', PStr ''tuned''),
     (''dataset_path'', PStr ''data''), (''dataset_config'', PStr ''subset''),
     (''finetune'', PBool True)]"

definition example_eval_config :: pyval where
  "example_eval_config = PDict
    [(''num_shots'', PInt 3), (''cot'', PBool False), (''finetune'', PBool True)]"

definition example_config :: pyval where
  "example_config = PDict
    [(''access_token'', PDict [(''huggingface_token'', PStr ''token'')]),
     (''model_config'', example_model_config),
     (''eval_config'', example_eval_config)]"

text \<open>
  Two metric libraries: one whose metrics all return a score, and one whose sacrebleu
  computation raises while the other two would return.
\<close>

definition constant_scores :: "(metric, nat) evaluate_library" where
  "constant_scores =
    \<lparr>load = (\<lambda>m. Inr m), compute = (\<lambda>h p r. Inr 1), show_result = (\<lambda>n. ''score'')\<rparr>"

definition sacrebleu_fails :: "(metric, nat) evaluate_library" where
  "sacrebleu_fails =
    \<lparr>load = (\<lambda>m. Inr m),
     compute = (\<lambda>h p r. if h = Sacrebleu then Inl (ExternalError ''sacrebleu'') else Inr 1),
     show_result = (\<lambda>n. ''score'')\<rparr>"

text \<open>Two rows of a test split, and an empty run.\<close>

definition two_rows :: "row list" where
  "two_rows =
    [\<lparr>classical = ''abc'', modern = ''def'', english = ''one''\<rparr>,
     \<lparr>classical = ''ghi'', modern = ''jkl'', english = ''two''\<rparr>]"

definition empty_run :: run where
  "empty_run = \<lparr>console = [], calls = []\<rparr>"

text \<open>Eleven predictions with their references, three of each, and an empty disk.\<close>

definition eleven_predictions :: "string list" where
  "eleven_predictions =
    [''p0'', ''p1'', ''p2'', ''p3'', ''p4'', ''p5'', ''p6'', ''p7'', ''p8'', ''p9'', ''p10'']"

definition eleven_references :: "string list list" where
  "eleven_references =
    [[''r0''], [''r1''], [''r2''], [''r3''], [''r4''], [''r5''], [''r6''], [''r7''], [''r8''],
     [''r9''], [''r10'']]"

definition three_predictions :: "string list" where
  "three_predictions = [''p0'', ''p1'', ''p2'']"

definition three_references :: "string list list" where
  "three_references = [[''r0''], [''r1''], [''r2'']]"

definition empty_disk :: "(nat, nat, string) disk" where
  "empty_disk = \<lparr>adapters = Map.empty, models = Map.empty, tokenizers = Map.empty\<rparr>"

section \<open>The parser's namespace\<close>

lemma map_of_option_table:
  "map_of option_table s = Some (Store act) \<Longrightarrow> act \<in> set declared_actions"
  by (auto simp: option_table_def dest!: map_of_SomeD split: if_splits)

lemma get_option_tuples_declared:
  "get_option_tuples s = [(Store act, e)] \<Longrightarrow> act \<in> set declared_actions"
proof -
  assume a: "get_option_tuples s = [(Store act, e)]"
  have "\<forall>(r, e) \<in> set (get_option_tuples s). r \<in> snd ` set option_table"
    by (auto simp: get_option_tuples_def split: prod.splits if_splits) force+
  with a have "Store act \<in> snd ` set option_table" by auto
  then show ?thesis by (auto simp: option_table_def)
qed

lemma parse_optional_declared:
  "parse_optional s = Optional_Known (Store act) e \<Longrightarrow> act \<in> set declared_actions"
  unfolding parse_optional_def
  by (auto split: if_splits option.splits prod.splits list.splits
      dest: map_of_option_table get_option_tuples_declared)

lemma store_Inr:
  "store int_of act v ns = Inr ns' \<Longrightarrow>
    \<exists>pv. convert int_of (atype act) v = Inr pv \<and> ns' = ns(dest act \<mapsto> pv)"
  by (auto simp: store_def bind_result_def setattr_def split: sum.splits)

lemma store_dom:
  assumes "store int_of act v ns = Inr ns'" and "act \<in> set declared_actions"
    and "dest ` set declared_actions \<subseteq> dom ns"
  shows "dom ns' = dom ns"
proof -
  from store_Inr [OF assms(1)] obtain pv where "ns' = ns(dest act \<mapsto> pv)" by blast
  moreover have "dest act \<in> dom ns" using assms(2,3) by blast
  ultimately show ?thesis by (simp add: insert_absorb)
qed

lemma consume_args_step:
  assumes "consume_args int_of (s # rest) ns = Inr ns'"
  shows "(s = ''--'' \<and> rest = [] \<and> ns' = ns) \<or>
    (\<exists>act e x ns1 rest'. s \<noteq> ''--'' \<and> parse_optional s = Optional_Known (Store act) e \<and>
       act \<in> set declared_actions \<and>
       ((e = Some x \<and> rest' = rest) \<or> (e = None \<and> rest = x # rest' \<and> is_argument x)) \<and>
       store int_of act x ns = Inr ns1 \<and> consume_args int_of rest' ns1 = Inr ns')"
proof (cases rest)
  case Nil
  show ?thesis
  proof (cases "s = ''--''")
    case True
    with Nil assms show ?thesis by simp
  next
    case False
    with Nil assms obtain act v where p: "parse_optional s = Optional_Known (Store act) (Some v)"
      and st: "store int_of act v ns = Inr ns'"
      by (auto split: arg_class.splits recognised.splits option.splits)
    with False Nil parse_optional_declared [OF p] show ?thesis by auto
  qed
next
  case (Cons v rest')
  with assms have ne: "s \<noteq> ''--''" by (auto split: if_splits)
  from assms Cons ne obtain act e where p: "parse_optional s = Optional_Known (Store act) e"
    by (auto split: arg_class.splits recognised.splits)
  note decl = parse_optional_declared [OF p]
  show ?thesis
  proof (cases e)
    case None
    with assms Cons ne p obtain ns1 where "store int_of act v ns = Inr ns1"
      "consume_args int_of rest' ns1 = Inr ns'" "is_argument v"
      by (auto simp: bind_result_def split: if_splits sum.splits)
    with None Cons ne p decl show ?thesis by auto
  next
    case (Some x)
    with assms Cons ne p obtain ns1 where "store int_of act x ns = Inr ns1"
      "consume_args int_of rest ns1 = Inr ns'"
      by (auto simp: bind_result_def split: if_splits sum.splits)
    with Some Cons ne p decl show ?thesis by auto
  qed
qed

lemma consume_args_dom:
  "consume_args int_of argv ns = Inr ns' \<Longrightarrow> dest ` set declared_actions \<subseteq> dom ns \<Longrightarrow>
    dom ns' = dom ns"
proof (induction argv arbitrary: ns rule: length_induct)
  case (1 argv)
  show ?case
  proof (cases argv)
    case Nil
    with 1 show ?thesis by simp
  next
    case (Cons s rest)
    from consume_args_step [OF "1.prems"(1) [unfolded Cons]]
    consider (separator) "s = ''--''" "rest = []" "ns' = ns"
      | (option) act e x ns1 rest' where
        "parse_optional s = Optional_Known (Store act) e" "act \<in> set declared_actions"
        "store int_of act x ns = Inr ns1" "consume_args int_of rest' ns1 = Inr ns'"
        "e = Some x \<and> rest' = rest \<or> e = None \<and> rest = x # rest' \<and> is_argument x"
      by blast
    then show ?thesis
    proof cases
      case separator
      then show ?thesis by simp
    next
      case option
      from store_dom [OF option(3) option(2) "1.prems"(2)] have d1: "dom ns1 = dom ns" .
      from option(5) Cons have len: "length rest' < length argv" by auto
      from d1 "1.prems"(2) have sub: "dest ` set declared_actions \<subseteq> dom ns1" by simp
      from "1.IH" len option(4) sub have "dom ns' = dom ns1" by blast
      with d1 show ?thesis by simp
    qed
  qed
qed

lemma dom_initial_namespace: "dom initial_namespace = dest ` set declared_actions"
  by (simp add: initial_namespace_def dom_map_of_conv_image_fst image_image)

lemma cot_not_declared: "''cot'' \<notin> dest ` set declared_actions"
  by (simp add: declared_actions_def)

lemma parse_args_dom:
  assumes "parse_args int_of argv = Inr args"
  shows "dom args = dest ` set declared_actions"
  using consume_args_dom [OF assms [unfolded parse_args_def]] dom_initial_namespace by simp

text \<open>
  Claim C2. For every command line that the parser accepts, the namespace has exactly the
  six declared attributes and no \<^verbatim>\<open>cot\<close> attribute, so the read of \<^verbatim>\<open>args.cot\<close> at line 41
  raises \<^verbatim>\<open>AttributeError\<close> instead of yielding a value, whatever the configuration holds:
  lines 29 to 41 never complete, and when lines 29 to 40 complete the exception of the run
  is this one.
\<close>

theorem cot_read_fails:
  assumes "parse_args int_of argv = Inr args"
  shows "dom args = dest ` set declared_actions \<and> args ''cot'' = None \<and>
    getattr args ''cot'' = Inl (AttributeError ''cot'') \<and>
    cot_selection args eval_cfg = Inl (AttributeError ''cot'') \<and>
    setup_configurations int_of argv config \<noteq> Inr r \<and>
    (effective_settings int_of argv config = Inr s \<longrightarrow>
       setup_configurations int_of argv config = Inl (AttributeError ''cot''))"
proof -
  have d: "dom args = dest ` set declared_actions" by (rule parse_args_dom [OF assms])
  with cot_not_declared have n: "args ''cot'' = None" by blast
  then have g: "getattr args ''cot'' = Inl (AttributeError ''cot'')"
    by (simp add: getattr_def)
  then have c: "\<And>e. cot_selection args e = Inl (AttributeError ''cot'')"
    by (simp add: cot_selection_def flag_or_def bind_result_def)
  have e: "effective_settings int_of argv config = Inr s \<longrightarrow>
       setup_configurations int_of argv config = Inl (AttributeError ''cot'')"
    using assms c
    by (auto simp: effective_settings_def setup_configurations_def bind_result_def
        split: sum.splits)
  have "setup_configurations int_of argv config \<noteq> Inr r"
    using assms c
    by (auto simp: setup_configurations_def bind_result_def split: sum.splits)
  with d n g c e show ?thesis by blast
qed

lemma ascii_int_examples:
  "ascii_int ''2'' = Some 2" "ascii_int ''0'' = Some 0" "ascii_int ''-3'' = Some (- 3)"
  "ascii_int ''1_0'' = Some 10" "ascii_int '' 5'' = Some 5" "ascii_int ''1__0'' = None"
  "ascii_int ''x'' = None" "ascii_int [] = None"
  by (simp_all add: ascii_int_def strip_def is_space_def is_digit_def digits_value_def)

lemma parse_num_shots_2:
  "parse_args ascii_int [''--num_shots'', ''2''] = Inr (initial_namespace(''num_shots'' \<mapsto> PInt 2))"
  by (simp add: parse_args_def parse_optional_def option_table_def declared_actions_def
      is_argument_def store_def bind_result_def setattr_def all_digits_def is_digit_def
      digits_value_def ascii_int_examples)

lemma effective_num_shots_2:
  "effective_settings ascii_int [''--num_shots'', ''2''] example_config =
    Inr \<lparr>model_path = PStr ''base'', new_model_path = PStr ''tuned'',
         dataset_path = PStr ''data'', dataset_config = PStr ''subset'',
         num_shots = PInt 2, finetune = PBool False\<rparr>"
  by (simp add: effective_settings_def parse_num_shots_2 example_config_def
      example_model_config_def example_eval_config_def bind_result_def
      initialize_configurations_def flag_or_def getattr_def initial_namespace_def
      declared_actions_def)

theorem cot_read_fails_witness:
  "parse_args ascii_int [''--num_shots'', ''2''] = Inr (initial_namespace(''num_shots'' \<mapsto> PInt 2)) \<and>
   getattr (initial_namespace(''num_shots'' \<mapsto> PInt 2)) ''cot'' = Inl (AttributeError ''cot'') \<and>
   effective_settings ascii_int [''--num_shots'', ''2''] example_config =
    Inr \<lparr>model_path = PStr ''base'', new_model_path = PStr ''tuned'',
         dataset_path = PStr ''data'', dataset_config = PStr ''subset'',
         num_shots = PInt 2, finetune = PBool False\<rparr> \<and>
   setup_configurations ascii_int [''--num_shots'', ''2''] example_config = Inl (AttributeError ''cot'')"
  using cot_read_fails [OF parse_num_shots_2, of _ example_config]
    parse_num_shots_2 effective_num_shots_2
  by simp

section \<open>The effective settings (lines 35 to 40)\<close>



















section \<open>The few-shot prompt\<close>

lemma format_direct:
  "format_str (prompt_template False) [(''classical'', c), (''english'', e)] =
    Inr (''Classical: '' @ c @ ''\<newline>English: '' @ e)"
  by (simp add: prompt_template_def bind_result_def)

lemma format_cot:
  "format_str (prompt_template True) [(''classical'', c), (''modern'', m), (''english'', e)] =
    Inr (''Classical: '' @ c @ ''\<newline>Modern: '' @ m @ ''\<newline>English: '' @ e)"
  by (simp add: prompt_template_def bind_result_def)

lemma format_row:
  "format_str (prompt_template cot) (select_columns cot r) =
    Inr (if cot then ''Classical: '' @ classical r @ ''\<newline>Modern: '' @ modern r @
                     ''\<newline>English: '' @ english r
         else ''Classical: '' @ classical r @ ''\<newline>English: '' @ english r)"
  by (simp add: select_columns_def format_direct format_cot)

lemma render_target_eq:
  "render_target cot r =
    Inr (if cot then ''Classical: '' @ classical r @ ''\<newline>Modern: \<newline>English: ''
         else ''Classical: '' @ classical r @ ''\<newline>English: '')"
  using format_direct [of "classical r" "[]"] format_cot [of "classical r" "[]" "[]"]
  by (simp add: render_target_def)

lemma build_prompt_eq:
  "build_prompt cot ex r =
    Inr (ex @ ''\<newline>'' @ instruction cot @
      (if cot then ''Classical: '' @ classical r @ ''\<newline>Modern: \<newline>English:''
       else ''Classical: '' @ classical r @ ''\<newline>English:''))"
  by (simp add: build_prompt_def render_target_eq bind_result_def butlast_append)

lemma build_prompts_eq:
  "build_prompts cot chat ex rows =
    Inr (map (\<lambda>r. chat (ex @ ''\<newline>'' @ instruction cot @
      (if cot then ''Classical: '' @ classical r @ ''\<newline>Modern: \<newline>English:''
       else ''Classical: '' @ classical r @ ''\<newline>English:''))) rows,
     map (\<lambda>r. [english r]) rows)"
  by (induction rows) (simp_all add: build_prompt_eq bind_result_def)

lemma map_result_total:
  "(\<And>x. x \<in> set xs \<Longrightarrow> f x = Inr (g x)) \<Longrightarrow> map_result f xs = Inr (map g xs)"
  by (induction xs) (simp_all add: bind_result_def)

lemma select_range_prefix:
  "select_range ds 0 k =
    (if ds = [] then Inr [] else if k \<le> length ds then Inr (take k ds) else Inl IndexError)"
  by (simp add: select_range_def)

lemma select_range_rest:
  "select_range ds k (length ds) =
    (if ds = [] then Inr [] else if k < length ds then Inr (drop k ds)
     else if length ds < k then Inr [] else Inl IndexError)"
  by (simp add: select_range_def)

lemma length_join_str:
  "length (join_str sep xs) = sum_list (map length xs) + length sep * (length xs - 1)"
  by (induction sep xs rule: join_str.induct) simp_all

lemma prompt_examples_eq:
  "prompt_examples k cot ex =
    Inr (if k = 0 then []
         else join_str ''\<newline>\<newline>''
           (map (\<lambda>r. if cot then ''Classical: '' @ classical r @ ''\<newline>Modern: '' @ modern r @
                                   ''\<newline>English: '' @ english r
                       else ''Classical: '' @ classical r @ ''\<newline>English: '' @ english r) ex))"
  by (simp add: prompt_examples_def map_result_total [OF format_row] bind_result_def)

lemma prompt_stage_eq:
  assumes "k < length test"
  shows "prompt_stage k cot chat test =
    bind_result (example_block k cot test)
      (\<lambda>examples. build_prompts cot chat examples (drop k test))"
  using assms
  by (auto simp: prompt_stage_def example_block_def select_range_prefix select_range_rest
      bind_result_def prompt_examples_eq)

lemma prompt_stage_zero:
  "prompt_stage 0 cot chat test = build_prompts cot chat [] test"
  by (simp add: prompt_stage_def select_range_prefix select_range_rest
      bind_result_def prompt_examples_def)

text \<open>
  Claim C1, as amended. With shot count 0 the example block is the empty string, for any
  rows given as examples and for the script's own selection of none. The prompt of a row
  then holds no example: it is one newline (the separator that line 106 or 111 puts after
  the example block, whether or not the block is empty), the instruction, and the target
  row through the template without its last character. The prompts of the whole test
  split are these, passed through the chat template, with one reference list per row.
\<close>

theorem zero_shot_prompt:
  "prompt_examples 0 cot ex = Inr [] \<and>
   example_block 0 cot test = Inr [] \<and>
   build_prompt cot [] r =
     Inr (''\<newline>'' @ instruction cot @
       (if cot then ''Classical: '' @ classical r @ ''\<newline>Modern: \<newline>English:''
        else ''Classical: '' @ classical r @ ''\<newline>English:'')) \<and>
   prompt_stage 0 cot chat test =
     Inr (map (\<lambda>r. chat (''\<newline>'' @ instruction cot @
            (if cot then ''Classical: '' @ classical r @ ''\<newline>Modern: \<newline>English:''
             else ''Classical: '' @ classical r @ ''\<newline>English:''))) test,
          map (\<lambda>r. [english r]) test)"
proof -
  have a: "prompt_examples 0 cot ex = Inr []" by (simp add: prompt_examples_def)
  have b: "example_block 0 cot test = Inr []"
    by (simp add: example_block_def select_range_prefix select_range_rest bind_result_def
        prompt_examples_def)
  have c: "build_prompt cot [] r =
     Inr (''\<newline>'' @ instruction cot @
       (if cot then ''Classical: '' @ classical r @ ''\<newline>Modern: \<newline>English:''
        else ''Classical: '' @ classical r @ ''\<newline>English:''))"
    using build_prompt_eq [of cot "[]" r] by simp
  have d: "prompt_stage 0 cot chat test =
     Inr (map (\<lambda>r. chat (''\<newline>'' @ instruction cot @
            (if cot then ''Classical: '' @ classical r @ ''\<newline>Modern: \<newline>English:''
             else ''Classical: '' @ classical r @ ''\<newline>English:''))) test,
          map (\<lambda>r. [english r]) test)"
    using build_prompts_eq [of cot chat "[]" test]
    by (simp add: prompt_stage_zero)
  from a b c d show ?thesis by (intro conjI)
qed

theorem zero_shot_prompt_witness:
  "prompt_stage 0 False (\<lambda>p. p)
      [\<lparr>classical = ''abc'', modern = ''def'', english = ''xyz''\<rparr>] =
     Inr ([''\<newline>Translate the following sentence from Classical Chinese into English. Provide only the translation:Classical: abc\<newline>English:''],
          [[''xyz'']])"
  using zero_shot_prompt [of False "[]" "[\<lparr>classical = ''abc'', modern = ''def'', english = ''xyz''\<rparr>]"
      "\<lparr>classical = ''abc'', modern = ''def'', english = ''xyz''\<rparr>" "\<lambda>p. p"]
  by (simp add: instruction_def)

text \<open>
  The claim as first stated fails: with no example, the prompt of the direct mode for the
  row with source \<^verbatim>\<open>abc\<close> starts with a newline, so the instruction is not a prefix of it.
\<close>

theorem zero_shot_prompt_counterexample:
  "build_prompt False [] \<lparr>classical = ''abc'', modern = ''def'', english = ''xyz''\<rparr> =
     Inr (''\<newline>Translate the following sentence from Classical Chinese into English. Provide only the translation:Classical: abc\<newline>English:'') \<and>
   \<not> prefix (instruction False)
     (''\<newline>Translate the following sentence from Classical Chinese into English. Provide only the translation:Classical: abc\<newline>English:'')"
  by (simp add: build_prompt_eq instruction_def)

text \<open>
  Claim C4, as amended. For a shot count \<open>k > 0\<close> and a test split of more than \<open>k\<close> rows,
  every one of the first \<open>k\<close> rows is rendered by the template, and the block is these
  \<open>k\<close> rendered rows joined by two newlines (so its length is the lengths of the rows and
  \<open>k - 1\<close> separators); a rendered row is the template with the row's fields in place.
  The run goes on with this block: the prompts are built from it for the rows after the
  first \<open>k\<close>.
\<close>

theorem example_block_rows:
  assumes "0 < k" and "k < length test"
  shows "\<exists>rendered.
     map_result (\<lambda>r. format_str (prompt_template cot) (select_columns cot r))
       (take k test) = Inr rendered \<and>
     length rendered = k \<and>
     rendered = map (\<lambda>r. if cot then ''Classical: '' @ classical r @ ''\<newline>Modern: '' @
                               modern r @ ''\<newline>English: '' @ english r
                         else ''Classical: '' @ classical r @ ''\<newline>English: '' @ english r)
                  (take k test) \<and>
     prompt_examples (int k) cot (take k test) = Inr (join_str ''\<newline>\<newline>'' rendered) \<and>
     example_block k cot test = Inr (join_str ''\<newline>\<newline>'' rendered) \<and>
     length (join_str ''\<newline>\<newline>'' rendered) =
       sum_list (map length rendered) + 2 * (k - 1) \<and>
     prompt_stage k cot chat test =
       build_prompts cot chat (join_str ''\<newline>\<newline>'' rendered) (drop k test)"
proof -
  let ?g = "\<lambda>r. if cot then ''Classical: '' @ classical r @ ''\<newline>Modern: '' @
                                   modern r @ ''\<newline>English: '' @ english r
                             else ''Classical: '' @ classical r @ ''\<newline>English: '' @ english r"
  let ?rendered = "map ?g (take k test)"
  have m: "map_result (\<lambda>r. format_str (prompt_template cot) (select_columns cot r))
           (take k test) = Inr ?rendered"
    by (rule map_result_total) (rule format_row)
  have l: "length ?rendered = k" using assms by simp
  have p: "prompt_examples (int k) cot (take k test) = Inr (join_str ''\<newline>\<newline>'' ?rendered)"
    using assms by (simp add: prompt_examples_eq)
  have e: "example_block k cot test = Inr (join_str ''\<newline>\<newline>'' ?rendered)"
    using assms p
    by (auto simp: example_block_def select_range_prefix select_range_rest bind_result_def)
  have j: "length (join_str ''\<newline>\<newline>'' ?rendered) =
           sum_list (map length ?rendered) + 2 * (k - 1)"
    using l by (simp add: length_join_str del: length_map)
  have s: "prompt_stage k cot chat test =
       build_prompts cot chat (join_str ''\<newline>\<newline>'' ?rendered) (drop k test)"
    using prompt_stage_eq [OF assms(2), of cot chat] e by (simp add: bind_result_def)
  from m l p e j s show ?thesis
    by (intro exI [of _ ?rendered] conjI refl)
qed

theorem example_block_rows_witness:
  "example_block 2 False
     [\<lparr>classical = ''a'', modern = ''m'', english = ''x''\<rparr>,
      \<lparr>classical = ''b'', modern = ''n'', english = ''y''\<rparr>,
      \<lparr>classical = ''c'', modern = ''o'', english = ''z''\<rparr>] =
     Inr ''Classical: a\<newline>English: x\<newline>\<newline>Classical: b\<newline>English: y''"
  using example_block_rows [of 2 "[\<lparr>classical = ''a'', modern = ''m'', english = ''x''\<rparr>,
      \<lparr>classical = ''b'', modern = ''n'', english = ''y''\<rparr>,
      \<lparr>classical = ''c'', modern = ''o'', english = ''z''\<rparr>]" False]
  by (simp add: numeral_2_eq_2)

text \<open>
  The claim as first stated fails when the test split has no more rows than the shot
  count. With shot count 2 and a test split of one row, the selection of line 88 raises
  \<^verbatim>\<open>IndexError\<close>. With shot count 2 and a test split of two rows, line 88 selects both
  rows and the selection of line 89, which starts at index 2 of a split of two rows,
  raises \<^verbatim>\<open>IndexError\<close>. In both runs no block is built.
\<close>

theorem example_block_rows_counterexample:
  "example_block 2 False [\<lparr>classical = ''a'', modern = ''m'', english = ''x''\<rparr>] =
     Inl IndexError \<and>
   select_range two_rows 0 2 = Inr two_rows \<and>
   select_range two_rows 2 (length two_rows) = Inl IndexError \<and>
   example_block 2 False two_rows = Inl IndexError"
  by (simp add: example_block_def select_range_def bind_result_def two_rows_def)

lemma example_block_short:
  assumes "test \<noteq> []" and "length test \<le> k"
  shows "example_block k cot test = Inl IndexError"
  using assms
  by (auto simp: example_block_def select_range_prefix select_range_rest bind_result_def)

text \<open>
  Claim C5. The target row through the template with the answer fields empty ends with
  the blank that the template has between \<^verbatim>\<open>English:\<close> and its last field. The slice
  \<^verbatim>\<open>[:-1]\<close> removes this blank and nothing else, so what is left is the template's text
  with the whole source field in its place. This holds for every source field, the
  non-empty ones in particular.
\<close>

theorem strip_removes_separator:
  "suffix '' {english}'' (prompt_template cot) \<and>
   (\<exists>t. render_target cot r = Inr t \<and>
      t = butlast t @ '' '' \<and>
      butlast t =
        (if cot then ''Classical: '' @ classical r @ ''\<newline>Modern: \<newline>English:''
         else ''Classical: '' @ classical r @ ''\<newline>English:'') \<and>
      build_prompt cot ex r = Inr (ex @ ''\<newline>'' @ instruction cot @ butlast t))"
proof -
  have s: "suffix '' {english}'' (prompt_template cot)"
  proof (cases cot)
    case True
    have "prompt_template True = ''Classical: {classical}\<newline>Modern: {modern}\<newline>English:'' @ '' {english}''"
      by (simp add: prompt_template_def)
    with True show ?thesis by (simp only: suffix_def) blast
  next
    case False
    have "prompt_template False = ''Classical: {classical}\<newline>English:'' @ '' {english}''"
      by (simp add: prompt_template_def)
    with False show ?thesis by (simp only: suffix_def) blast
  qed
  let ?t = "if cot then ''Classical: '' @ classical r @ ''\<newline>Modern: \<newline>English: ''
         else ''Classical: '' @ classical r @ ''\<newline>English: ''"
  have r: "render_target cot r = Inr ?t" by (rule render_target_eq)
  have b: "butlast ?t =
        (if cot then ''Classical: '' @ classical r @ ''\<newline>Modern: \<newline>English:''
         else ''Classical: '' @ classical r @ ''\<newline>English:'')"
    by (simp add: butlast_append)
  have e: "?t = butlast ?t @ '' ''" by (simp add: butlast_append)
  have p: "build_prompt cot ex r = Inr (ex @ ''\<newline>'' @ instruction cot @ butlast ?t)"
    by (simp add: build_prompt_def r bind_result_def)
  from r e b p have "\<exists>t. render_target cot r = Inr t \<and>
      t = butlast t @ '' '' \<and>
      butlast t =
        (if cot then ''Classical: '' @ classical r @ ''\<newline>Modern: \<newline>English:''
         else ''Classical: '' @ classical r @ ''\<newline>English:'') \<and>
      build_prompt cot ex r = Inr (ex @ ''\<newline>'' @ instruction cot @ butlast t)"
    by (intro exI [of _ ?t] conjI)
  with s show ?thesis by (intro conjI)
qed

theorem strip_removes_separator_witness:
  "render_target True \<lparr>classical = ''abc'', modern = ''def'', english = ''xyz''\<rparr> =
     Inr ''Classical: abc\<newline>Modern: \<newline>English: '' \<and>
   butlast ''Classical: abc\<newline>Modern: \<newline>English: '' =
     ''Classical: abc\<newline>Modern: \<newline>English:''"
  using strip_removes_separator [of True "\<lparr>classical = ''abc'', modern = ''def'', english = ''xyz''\<rparr>" "[]"]
  by auto

section \<open>The scoring block\<close>

lemma map_result_length: "map_result f xs = Inr ys \<Longrightarrow> length ys = length xs"
  by (induction xs arbitrary: ys) (auto simp: bind_result_def split: sum.splits)

lemma score_metric_cases:
  assumes "score_metric lib m p r st = (st', res)"
  shows "(res = None \<and> succeeds lib m p r \<and> calls st' = calls st @ [(m, p, r)]) \<or>
    (res \<noteq> None \<and> \<not> succeeds lib m p r \<and>
       (calls st' = calls st \<or> calls st' = calls st @ [(m, p, r)]))"
  using assms by (auto simp: score_metric_def succeeds_def split: sum.splits)

lemma evaluation_calls:
  assumes "evaluation lib p r st = (st', res)"
  shows "\<exists>ms. prefix ms [Sacrebleu, Meteor, Chrf] \<and>
    calls st' = calls st @ map (\<lambda>m. (m, p, r)) ms \<and>
    (res = None \<longrightarrow> ms = [Sacrebleu, Meteor, Chrf]) \<and>
    (Meteor \<in> set ms \<longrightarrow> succeeds lib Sacrebleu p r) \<and>
    (Chrf \<in> set ms \<longrightarrow> succeeds lib Sacrebleu p r \<and> succeeds lib Meteor p r) \<and>
    (res = None \<longleftrightarrow>
       succeeds lib Sacrebleu p r \<and> succeeds lib Meteor p r \<and> succeeds lib Chrf p r)"
proof -
  obtain st1 r1 where s1: "score_metric lib Sacrebleu p r st = (st1, r1)" by force
  note c1 = score_metric_cases [OF s1]
  show ?thesis
  proof (cases r1)
    case (Some e)
    with assms s1 have "st' = st1" "res = Some e" by (simp_all add: evaluation_def)
    with c1 Some show ?thesis
      by (elim disjE conjE; simp) (auto intro: exI [of _ "[]"] exI [of _ "[Sacrebleu]"])
  next
    case None
    with c1 have ok1: "succeeds lib Sacrebleu p r"
      and k1: "calls st1 = calls st @ [(Sacrebleu, p, r)]" by auto
    obtain st2 r2 where s2: "score_metric lib Meteor p r st1 = (st2, r2)" by force
    note c2 = score_metric_cases [OF s2]
    show ?thesis
    proof (cases r2)
      case (Some e)
      with assms s1 s2 None have "st' = st2" "res = Some e" by (simp_all add: evaluation_def)
      with c2 Some k1 ok1 show ?thesis
        by (elim disjE conjE; simp)
           (auto intro: exI [of _ "[Sacrebleu]"] exI [of _ "[Sacrebleu, Meteor]"])
    next
      case None2: None
      with c2 have ok2: "succeeds lib Meteor p r"
        and k2: "calls st2 = calls st1 @ [(Meteor, p, r)]" by auto
      from assms s1 s2 None None2 have s3: "score_metric lib Chrf p r st2 = (st', res)"
        by (simp add: evaluation_def)
      note c3 = score_metric_cases [OF s3]
      from c3 k1 k2 ok1 ok2 show ?thesis
        by (elim disjE conjE; simp)
           (auto intro: exI [of _ "[Sacrebleu, Meteor]"] exI [of _ "[Sacrebleu, Meteor, Chrf]"])
    qed
  qed
qed

lemma score_metric_console:
  assumes "score_metric lib m p r st = (st', res)"
  shows "prefix (console st) (console st')"
  using assms by (auto simp: score_metric_def split: sum.splits)

lemma evaluation_console:
  assumes "evaluation lib p r st = (st', res)"
  shows "prefix (console st) (console st')"
proof -
  obtain st1 r1 where s1: "score_metric lib Sacrebleu p r st = (st1, r1)" by force
  obtain st2 r2 where s2: "score_metric lib Meteor p r st1 = (st2, r2)" by force
  obtain st3 r3 where s3: "score_metric lib Chrf p r st2 = (st3, r3)" by force
  note c = score_metric_console [OF s1] score_metric_console [OF s2]
    score_metric_console [OF s3]
  from assms s1 s2 s3 have "st' = st1 \<or> st' = st2 \<or> st' = st3"
    by (auto simp: evaluation_def split: option.splits)
  with c show ?thesis by (auto intro: prefix_order.trans)
qed

lemma computed_eq:
  assumes "calls st' = calls st @ map (\<lambda>m. (m, p, r)) ms"
  shows "computed st st' = ms" and "new_calls st st' = map (\<lambda>m. (m, p, r)) ms"
  using assms by (simp_all add: computed_def new_calls_def comp_def)

lemma build_prompts_Inr:
  assumes "build_prompts cot chat ex rows = Inr (prompts, references)"
  shows "references = map (\<lambda>r. [english r]) rows" and "length prompts = length rows"
  using assms by (auto simp: build_prompts_eq)

lemma predictions_of_length:
  assumes "predictions_of outputs prompts = Inr predictions"
  shows "length predictions = min (length outputs) (length prompts)"
  using map_result_length [OF assms [unfolded predictions_of_def]] by simp

lemma score_metric_fails:
  assumes "metric_result lib m p r = Inl e"
  shows "\<exists>st'. score_metric lib m p r st = (st', Some e) \<and> console st' = console st \<and>
    (calls st' = calls st \<or> calls st' = calls st @ [(m, p, r)])"
  using assms
  by (auto simp: score_metric_def metric_result_def bind_result_def split: sum.splits)

lemma score_metric_returns:
  assumes "metric_result lib m p r = Inr x"
  shows "score_metric lib m p r st =
    (st\<lparr>calls := calls st @ [(m, p, r)],
        console := console st @ [banner m, show_result lib x]\<rparr>, None)"
  using assms
  by (auto simp: score_metric_def metric_result_def bind_result_def split: sum.splits)

lemma metric_result_cases:
  "(\<exists>e. metric_result lib m p r = Inl e) \<or> (\<exists>x. metric_result lib m p r = Inr x)"
  by (cases "metric_result lib m p r") auto

lemma evaluation_sacrebleu_fails:
  assumes "evaluation lib p r st = (st', res)" and "metric_result lib Sacrebleu p r = Inl e"
  shows "res = Some e \<and> console st' = console st \<and> prefix (computed st st') [Sacrebleu]"
proof -
  from score_metric_fails [OF assms(2), of st] obtain st1 where
    "score_metric lib Sacrebleu p r st = (st1, Some e)" "console st1 = console st"
    "calls st1 = calls st \<or> calls st1 = calls st @ [(Sacrebleu, p, r)]" by blast
  with assms(1) show ?thesis
    by (auto simp: evaluation_def computed_def new_calls_def)
qed

lemma evaluation_meteor_fails:
  assumes "evaluation lib p r st = (st', res)" and "metric_result lib Sacrebleu p r = Inr rs"
    and "metric_result lib Meteor p r = Inl e"
  shows "res = Some e \<and> console st' = console st @ [banner Sacrebleu, show_result lib rs] \<and>
    prefix [Sacrebleu] (computed st st') \<and> prefix (computed st st') [Sacrebleu, Meteor]"
proof -
  let ?st1 = "st\<lparr>calls := calls st @ [(Sacrebleu, p, r)],
        console := console st @ [banner Sacrebleu, show_result lib rs]\<rparr>"
  from score_metric_fails [OF assms(3), of ?st1] obtain st2 where
    "score_metric lib Meteor p r ?st1 = (st2, Some e)" "console st2 = console ?st1"
    "calls st2 = calls ?st1 \<or> calls st2 = calls ?st1 @ [(Meteor, p, r)]" by blast
  with assms(1) score_metric_returns [OF assms(2), of st] show ?thesis
    by (auto simp: evaluation_def computed_def new_calls_def)
qed

lemma evaluation_chrf_fails:
  assumes "evaluation lib p r st = (st', res)" and "metric_result lib Sacrebleu p r = Inr rs"
    and "metric_result lib Meteor p r = Inr rm" and "metric_result lib Chrf p r = Inl e"
  shows "res = Some e \<and>
    console st' = console st @
      [banner Sacrebleu, show_result lib rs, banner Meteor, show_result lib rm] \<and>
    prefix [Sacrebleu, Meteor] (computed st st') \<and>
    prefix (computed st st') [Sacrebleu, Meteor, Chrf]"
proof -
  let ?st1 = "st\<lparr>calls := calls st @ [(Sacrebleu, p, r)],
        console := console st @ [banner Sacrebleu, show_result lib rs]\<rparr>"
  let ?st2 = "?st1\<lparr>calls := calls ?st1 @ [(Meteor, p, r)],
        console := console ?st1 @ [banner Meteor, show_result lib rm]\<rparr>"
  from score_metric_fails [OF assms(4), of ?st2] obtain st3 where
    "score_metric lib Chrf p r ?st2 = (st3, Some e)" "console st3 = console ?st2"
    "calls st3 = calls ?st2 \<or> calls st3 = calls ?st2 @ [(Chrf, p, r)]" by blast
  with assms(1) score_metric_returns [OF assms(2), of st]
    score_metric_returns [OF assms(3), of ?st1] show ?thesis
    by (auto simp: evaluation_def computed_def new_calls_def)
qed

lemma evaluation_all_return:
  assumes "evaluation lib p r st = (st', res)" and "metric_result lib Sacrebleu p r = Inr rs"
    and "metric_result lib Meteor p r = Inr rm" and "metric_result lib Chrf p r = Inr rc"
  shows "res = None \<and>
    console st' = console st @
      [banner Sacrebleu, show_result lib rs, banner Meteor, show_result lib rm,
       banner Chrf, show_result lib rc] \<and>
    computed st st' = [Sacrebleu, Meteor, Chrf]"
proof -
  let ?st1 = "st\<lparr>calls := calls st @ [(Sacrebleu, p, r)],
        console := console st @ [banner Sacrebleu, show_result lib rs]\<rparr>"
  let ?st2 = "?st1\<lparr>calls := calls ?st1 @ [(Meteor, p, r)],
        console := console ?st1 @ [banner Meteor, show_result lib rm]\<rparr>"
  from assms(1) score_metric_returns [OF assms(2), of st]
    score_metric_returns [OF assms(3), of ?st1] score_metric_returns [OF assms(4), of ?st2]
  show ?thesis
    by (auto simp: evaluation_def computed_def new_calls_def)
qed

lemma metric_result_unfold:
  "metric_result lib m p r = (case load lib m of Inl e \<Rightarrow> Inl e | Inr h \<Rightarrow> compute lib h p r)"
  by (simp add: metric_result_def bind_result_def)

lemma metric_result_Inr:
  "metric_result lib m p r = Inr x \<Longrightarrow> \<exists>h. load lib m = Inr h \<and> compute lib h p r = Inr x"
  by (auto simp: metric_result_unfold split: sum.splits)

lemma metric_result_Inl:
  "metric_result lib m p r = Inl e \<Longrightarrow>
    load lib m = Inl e \<or> (\<exists>h. load lib m = Inr h \<and> compute lib h p r = Inl e)"
  by (auto simp: metric_result_unfold split: sum.splits)

lemma evaluation_outcome:
  assumes "evaluation lib p r st = (st', res)"
  shows "(\<exists>e. metric_result lib Sacrebleu p r = Inl e \<and> res = Some e) \<or>
    (\<exists>rs e. metric_result lib Sacrebleu p r = Inr rs \<and> metric_result lib Meteor p r = Inl e \<and>
       res = Some e) \<or>
    (\<exists>rs rm e. metric_result lib Sacrebleu p r = Inr rs \<and>
       metric_result lib Meteor p r = Inr rm \<and> metric_result lib Chrf p r = Inl e \<and>
       res = Some e) \<or>
    (\<exists>rs rm rc. metric_result lib Sacrebleu p r = Inr rs \<and>
       metric_result lib Meteor p r = Inr rm \<and> metric_result lib Chrf p r = Inr rc \<and>
       res = None \<and>
       console st' = console st @
         [banner Sacrebleu, show_result lib rs, banner Meteor, show_result lib rm,
          banner Chrf, show_result lib rc])"
proof (cases "metric_result lib Sacrebleu p r")
  case (Inl e)
  with evaluation_sacrebleu_fails [OF assms Inl] show ?thesis by simp
next
  case s: (Inr rs)
  show ?thesis
  proof (cases "metric_result lib Meteor p r")
    case (Inl e)
    with evaluation_meteor_fails [OF assms s Inl] s show ?thesis by simp
  next
    case m: (Inr rm)
    show ?thesis
    proof (cases "metric_result lib Chrf p r")
      case (Inl e)
      with evaluation_chrf_fails [OF assms s m Inl] s m show ?thesis by simp
    next
      case (Inr rc)
      with evaluation_all_return [OF assms s m Inr] s m show ?thesis by simp
    qed
  qed
qed

lemma evaluation_loaded:
  assumes "evaluation lib p r st = (st', res)"
  shows "\<forall>m \<in> set (computed st st'). \<exists>h. load lib m = Inr h"
  using assms
  by (auto simp: evaluation_def score_metric_def computed_def new_calls_def
      split: sum.splits option.splits prod.splits)

lemma evaluation_returns:
  assumes "evaluation lib p r st = (st', None)"
  shows "\<exists>hs hm hc rs rm rc.
      load lib Sacrebleu = Inr hs \<and> compute lib hs p r = Inr rs \<and>
      load lib Meteor = Inr hm \<and> compute lib hm p r = Inr rm \<and>
      load lib Chrf = Inr hc \<and> compute lib hc p r = Inr rc \<and>
      console st' = console st @
        [banner Sacrebleu, show_result lib rs, banner Meteor, show_result lib rm,
         banner Chrf, show_result lib rc]"
proof -
  from evaluation_outcome [OF assms] obtain rs rm rc where
    a: "metric_result lib Sacrebleu p r = Inr rs" "metric_result lib Meteor p r = Inr rm"
      "metric_result lib Chrf p r = Inr rc"
    and c: "console st' = console st @
         [banner Sacrebleu, show_result lib rs, banner Meteor, show_result lib rm,
          banner Chrf, show_result lib rc]"
    by auto
  from a(1) obtain hs where "load lib Sacrebleu = Inr hs" "compute lib hs p r = Inr rs"
    by (auto dest: metric_result_Inr)
  moreover from a(2) obtain hm where "load lib Meteor = Inr hm" "compute lib hm p r = Inr rm"
    by (auto dest: metric_result_Inr)
  moreover from a(3) obtain hc where "load lib Chrf = Inr hc" "compute lib hc p r = Inr rc"
    by (auto dest: metric_result_Inr)
  ultimately show ?thesis using c by blast
qed

lemma evaluation_raises:
  assumes "evaluation lib p r st = (st', Some e)"
  shows "\<exists>m \<in> set [Sacrebleu, Meteor, Chrf].
      load lib m = Inl e \<or> (\<exists>h. load lib m = Inr h \<and> compute lib h p r = Inl e)"
proof -
  from evaluation_outcome [OF assms]
  have "metric_result lib Sacrebleu p r = Inl e \<or> metric_result lib Meteor p r = Inl e \<or>
    metric_result lib Chrf p r = Inl e" by auto
  then show ?thesis by (auto dest: metric_result_Inl)
qed

text \<open>
  Claim C6. Let the prompt loop over the rows to translate give the prompts and the
  references, let the pipeline return one output per prompt, and let line 134 give the
  predictions. Then the references are the rows' English fields, each wrapped in a list
  of one element, as many as there are predictions. Every call that the scoring block
  records is a call of \<^verbatim>\<open>compute\<close> on a loaded metric with exactly these predictions and
  these references as its arguments, and the calls are made in the order sacrebleu,
  meteor, chrf. When the block completes, all three metrics were loaded, each
  \<^verbatim>\<open>compute\<close> was called on these two lists and returned, and what the block printed is
  the three banners, each followed by the result of that call. When the block ends with
  an exception, it is the exception of the load of one of the three metrics or of its
  \<^verbatim>\<open>compute\<close> on these two lists.
\<close>

theorem metric_calls_shape:
  assumes "build_prompts cot chat ex rows = Inr (prompts, references)"
    and "length outputs = length prompts"
    and "predictions_of outputs prompts = Inr predictions"
    and "evaluation lib predictions references st = (st', res)"
  shows "references = map (\<lambda>r. [english r]) rows \<and>
    list_all (\<lambda>ref. length ref = 1) references \<and>
    length references = length predictions \<and>
    list_all (\<lambda>(m, p, r). p = predictions \<and> r = references) (new_calls st st') \<and>
    prefix (computed st st') [Sacrebleu, Meteor, Chrf] \<and>
    (res = None \<longrightarrow> computed st st' = [Sacrebleu, Meteor, Chrf]) \<and>
    (\<forall>m \<in> set (computed st st'). \<exists>h. load lib m = Inr h) \<and>
    (res = None \<longrightarrow>
      (\<exists>hs hm hc rs rm rc.
         load lib Sacrebleu = Inr hs \<and> compute lib hs predictions references = Inr rs \<and>
         load lib Meteor = Inr hm \<and> compute lib hm predictions references = Inr rm \<and>
         load lib Chrf = Inr hc \<and> compute lib hc predictions references = Inr rc \<and>
         console st' = console st @
           [banner Sacrebleu, show_result lib rs, banner Meteor, show_result lib rm,
            banner Chrf, show_result lib rc])) \<and>
    (\<forall>e. res = Some e \<longrightarrow>
      (\<exists>m \<in> set [Sacrebleu, Meteor, Chrf].
         load lib m = Inl e \<or>
         (\<exists>h. load lib m = Inr h \<and> compute lib h predictions references = Inl e)))"
proof -
  note b = build_prompts_Inr [OF assms(1)]
  have shape: "list_all (\<lambda>ref. length ref = 1) references"
    by (simp add: b(1) list_all_iff)
  have len: "length references = length predictions"
    using predictions_of_length [OF assms(3)] assms(2) b by simp
  from evaluation_calls [OF assms(4)] obtain ms where
    pre: "prefix ms [Sacrebleu, Meteor, Chrf]"
    and k: "calls st' = calls st @ map (\<lambda>m. (m, predictions, references)) ms"
    and full: "res = None \<longrightarrow> ms = [Sacrebleu, Meteor, Chrf]"
    by blast
  note c = computed_eq [OF k]
  have args: "list_all (\<lambda>(m, p, r). p = predictions \<and> r = references) (new_calls st st')"
    by (simp add: c(2) list_all_iff)
  have pre': "prefix (computed st st') [Sacrebleu, Meteor, Chrf]" using pre c(1) by simp
  have full': "res = None \<longrightarrow> computed st st' = [Sacrebleu, Meteor, Chrf]"
    using full c(1) by simp
  note loaded = evaluation_loaded [OF assms(4)]
  have ret: "res = None \<longrightarrow>
      (\<exists>hs hm hc rs rm rc.
         load lib Sacrebleu = Inr hs \<and> compute lib hs predictions references = Inr rs \<and>
         load lib Meteor = Inr hm \<and> compute lib hm predictions references = Inr rm \<and>
         load lib Chrf = Inr hc \<and> compute lib hc predictions references = Inr rc \<and>
         console st' = console st @
           [banner Sacrebleu, show_result lib rs, banner Meteor, show_result lib rm,
            banner Chrf, show_result lib rc])"
    using evaluation_returns [of lib predictions references st st'] assms(4) by simp
  have rai: "\<forall>e. res = Some e \<longrightarrow>
      (\<exists>m \<in> set [Sacrebleu, Meteor, Chrf].
         load lib m = Inl e \<or>
         (\<exists>h. load lib m = Inr h \<and> compute lib h predictions references = Inl e))"
    using evaluation_raises [of lib predictions references st st'] assms(4) by simp
  show ?thesis
    by (intro conjI b(1) shape len args pre' full' loaded ret rai)
qed

theorem metric_calls_shape_witness:
  "build_prompts False (\<lambda>p. ''Q:'') [] two_rows = Inr ([''Q:'', ''Q:''], [[''one''], [''two'']]) \<and>
   predictions_of [[''Q:uno''], [''Q:dos'']] [''Q:'', ''Q:''] = Inr [''uno'', ''dos''] \<and>
   evaluation constant_scores [''uno'', ''dos''] [[''one''], [''two'']] empty_run =
     (\<lparr>console = [banner Sacrebleu, ''score'', banner Meteor, ''score'', banner Chrf, ''score''],
       calls = [(Sacrebleu, [''uno'', ''dos''], [[''one''], [''two'']]),
                (Meteor, [''uno'', ''dos''], [[''one''], [''two'']]),
                (Chrf, [''uno'', ''dos''], [[''one''], [''two'']])]\<rparr>, None) \<and>
   computed empty_run
     \<lparr>console = [banner Sacrebleu, ''score'', banner Meteor, ''score'', banner Chrf, ''score''],
       calls = [(Sacrebleu, [''uno'', ''dos''], [[''one''], [''two'']]),
                (Meteor, [''uno'', ''dos''], [[''one''], [''two'']]),
                (Chrf, [''uno'', ''dos''], [[''one''], [''two'']])]\<rparr>
     = [Sacrebleu, Meteor, Chrf] \<and>
   compute constant_scores Meteor [''uno'', ''dos''] [[''one''], [''two'']] = Inr 1"
proof -
  have b: "build_prompts False (\<lambda>p. ''Q:'') [] two_rows =
      Inr ([''Q:'', ''Q:''], [[''one''], [''two'']])"
    by (simp add: build_prompts_eq two_rows_def)
  have l: "length [[''Q:uno''], [''Q:dos'']] = length [''Q:'', ''Q:'']" by simp
  have p: "predictions_of [[''Q:uno''], [''Q:dos'']] [''Q:'', ''Q:''] = Inr [''uno'', ''dos'']"
    by (simp add: predictions_of_def first_generated_def bind_result_def)
  have e: "evaluation constant_scores [''uno'', ''dos''] [[''one''], [''two'']] empty_run =
     (\<lparr>console = [banner Sacrebleu, ''score'', banner Meteor, ''score'', banner Chrf, ''score''],
       calls = [(Sacrebleu, [''uno'', ''dos''], [[''one''], [''two'']]),
                (Meteor, [''uno'', ''dos''], [[''one''], [''two'']]),
                (Chrf, [''uno'', ''dos''], [[''one''], [''two'']])]\<rparr>, None)"
    by (simp add: evaluation_def score_metric_def constant_scores_def empty_run_def)
  from metric_calls_shape [OF b l p e] b p e show ?thesis
    by (simp add: computed_def new_calls_def empty_run_def constant_scores_def)
qed

text \<open>
  Claim C7, as amended. The scoring block computes the metrics one after the other in
  the order sacrebleu, meteor, chrf, with no handling of exceptions, where what a metric
  gives is the result of its load followed by its \<^verbatim>\<open>compute\<close>. When sacrebleu fails, the
  block ends with the exception of sacrebleu, nothing is printed, and neither meteor nor
  chrf is computed. When sacrebleu returns and meteor fails, the block ends with the
  exception of meteor, the banner and the result of sacrebleu are what it printed, and
  chrf is not computed. When sacrebleu and meteor return and chrf fails, the block ends
  with the exception of chrf, and the banners and results of sacrebleu and meteor are
  what it printed. When all three return, the block completes and has printed the three
  banners and results. In every case what the run had printed before stays on the
  console.
\<close>

theorem metric_failure_ends_run:
  assumes "evaluation lib p r st = (st', res)"
  shows "(\<forall>m. metric_result lib m p r =
        (case load lib m of Inl e \<Rightarrow> Inl e | Inr h \<Rightarrow> compute lib h p r)) \<and>
    (\<forall>e. metric_result lib Sacrebleu p r = Inl e \<longrightarrow>
       res = Some e \<and> console st' = console st \<and>
       prefix (computed st st') [Sacrebleu]) \<and>
    (\<forall>rs e. metric_result lib Sacrebleu p r = Inr rs \<and>
         metric_result lib Meteor p r = Inl e \<longrightarrow>
       res = Some e \<and>
       console st' = console st @ [banner Sacrebleu, show_result lib rs] \<and>
       prefix [Sacrebleu] (computed st st') \<and>
       prefix (computed st st') [Sacrebleu, Meteor]) \<and>
    (\<forall>rs rm e. metric_result lib Sacrebleu p r = Inr rs \<and>
         metric_result lib Meteor p r = Inr rm \<and>
         metric_result lib Chrf p r = Inl e \<longrightarrow>
       res = Some e \<and>
       console st' = console st @
         [banner Sacrebleu, show_result lib rs, banner Meteor, show_result lib rm] \<and>
       prefix [Sacrebleu, Meteor] (computed st st') \<and>
       prefix (computed st st') [Sacrebleu, Meteor, Chrf]) \<and>
    (\<forall>rs rm rc. metric_result lib Sacrebleu p r = Inr rs \<and>
         metric_result lib Meteor p r = Inr rm \<and>
         metric_result lib Chrf p r = Inr rc \<longrightarrow>
       res = None \<and>
       console st' = console st @
         [banner Sacrebleu, show_result lib rs, banner Meteor, show_result lib rm,
          banner Chrf, show_result lib rc] \<and>
       computed st st' = [Sacrebleu, Meteor, Chrf]) \<and>
    prefix (computed st st') [Sacrebleu, Meteor, Chrf] \<and>
    (Meteor \<in> set (computed st st') \<longrightarrow> succeeds lib Sacrebleu p r) \<and>
    (Chrf \<in> set (computed st st') \<longrightarrow> succeeds lib Sacrebleu p r \<and> succeeds lib Meteor p r) \<and>
    (res = None \<longleftrightarrow>
       succeeds lib Sacrebleu p r \<and> succeeds lib Meteor p r \<and> succeeds lib Chrf p r) \<and>
    prefix (console st) (console st')"
proof -
  have u: "\<forall>m. metric_result lib m p r =
        (case load lib m of Inl e \<Rightarrow> Inl e | Inr h \<Rightarrow> compute lib h p r)"
    by (simp add: metric_result_unfold)
  have a: "\<forall>e. metric_result lib Sacrebleu p r = Inl e \<longrightarrow>
       res = Some e \<and> console st' = console st \<and>
       prefix (computed st st') [Sacrebleu]"
    using evaluation_sacrebleu_fails [OF assms] by blast
  have b: "\<forall>rs e. metric_result lib Sacrebleu p r = Inr rs \<and>
         metric_result lib Meteor p r = Inl e \<longrightarrow>
       res = Some e \<and>
       console st' = console st @ [banner Sacrebleu, show_result lib rs] \<and>
       prefix [Sacrebleu] (computed st st') \<and>
       prefix (computed st st') [Sacrebleu, Meteor]"
    using evaluation_meteor_fails [OF assms] by blast
  have c: "\<forall>rs rm e. metric_result lib Sacrebleu p r = Inr rs \<and>
         metric_result lib Meteor p r = Inr rm \<and>
         metric_result lib Chrf p r = Inl e \<longrightarrow>
       res = Some e \<and>
       console st' = console st @
         [banner Sacrebleu, show_result lib rs, banner Meteor, show_result lib rm] \<and>
       prefix [Sacrebleu, Meteor] (computed st st') \<and>
       prefix (computed st st') [Sacrebleu, Meteor, Chrf]"
    using evaluation_chrf_fails [OF assms] by blast
  have d: "\<forall>rs rm rc. metric_result lib Sacrebleu p r = Inr rs \<and>
         metric_result lib Meteor p r = Inr rm \<and>
         metric_result lib Chrf p r = Inr rc \<longrightarrow>
       res = None \<and>
       console st' = console st @
         [banner Sacrebleu, show_result lib rs, banner Meteor, show_result lib rm,
          banner Chrf, show_result lib rc] \<and>
       computed st st' = [Sacrebleu, Meteor, Chrf]"
    using evaluation_all_return [OF assms] by blast
  from evaluation_calls [OF assms] obtain ms where
    pre: "prefix ms [Sacrebleu, Meteor, Chrf]"
    and k: "calls st' = calls st @ map (\<lambda>m. (m, p, r)) ms"
    and m: "Meteor \<in> set ms \<longrightarrow> succeeds lib Sacrebleu p r"
    and ch: "Chrf \<in> set ms \<longrightarrow> succeeds lib Sacrebleu p r \<and> succeeds lib Meteor p r"
    and n: "res = None \<longleftrightarrow>
       succeeds lib Sacrebleu p r \<and> succeeds lib Meteor p r \<and> succeeds lib Chrf p r"
    by blast
  note ce = computed_eq(1) [OF k]
  have pre': "prefix (computed st st') [Sacrebleu, Meteor, Chrf]" using pre ce by simp
  have m': "Meteor \<in> set (computed st st') \<longrightarrow> succeeds lib Sacrebleu p r"
    using m ce by simp
  have ch': "Chrf \<in> set (computed st st') \<longrightarrow>
      succeeds lib Sacrebleu p r \<and> succeeds lib Meteor p r"
    using ch ce by simp
  show ?thesis
    by (intro conjI u a b c d pre' m' ch' n evaluation_console [OF assms])
qed

theorem metric_failure_ends_run_witness:
  "evaluation sacrebleu_fails [''uno''] [[''one'']] empty_run =
     (\<lparr>console = [], calls = [(Sacrebleu, [''uno''], [[''one'']])]\<rparr>,
      Some (ExternalError ''sacrebleu'')) \<and>
   metric_result sacrebleu_fails Sacrebleu [''uno''] [[''one'']] =
     Inl (ExternalError ''sacrebleu'') \<and>
   computed empty_run \<lparr>console = [], calls = [(Sacrebleu, [''uno''], [[''one'']])]\<rparr> = [Sacrebleu] \<and>
   \<not> succeeds sacrebleu_fails Sacrebleu [''uno''] [[''one'']]"
proof -
  have e: "evaluation sacrebleu_fails [''uno''] [[''one'']] empty_run =
     (\<lparr>console = [], calls = [(Sacrebleu, [''uno''], [[''one'']])]\<rparr>,
      Some (ExternalError ''sacrebleu''))"
    by (simp add: evaluation_def score_metric_def sacrebleu_fails_def empty_run_def)
  from metric_failure_ends_run [OF e] e show ?thesis
    by (simp add: computed_def new_calls_def empty_run_def succeeds_def sacrebleu_fails_def
        metric_result_def bind_result_def)
qed

text \<open>
  The claim as first stated fails: in a library where only the sacrebleu computation
  raises, meteor and chrf would both succeed on the same arguments, and the block ends
  with the exception of sacrebleu after the single call of sacrebleu, with nothing printed.
\<close>

theorem metric_failure_counterexample:
  "evaluation sacrebleu_fails [''uno''] [[''one'']] empty_run =
     (\<lparr>console = [], calls = [(Sacrebleu, [''uno''], [[''one'']])]\<rparr>,
      Some (ExternalError ''sacrebleu'')) \<and>
   succeeds sacrebleu_fails Meteor [''uno''] [[''one'']] \<and>
   succeeds sacrebleu_fails Chrf [''uno''] [[''one'']]"
  by (simp add: evaluation_def score_metric_def sacrebleu_fails_def empty_run_def succeeds_def)

section \<open>The predictions\<close>

lemma predictions_of_total:
  assumes "\<forall>output \<in> set outputs. output \<noteq> []"
  shows "predictions_of outputs prompts =
    Inr (map (\<lambda>(output, prompt). drop (length prompt) (hd output)) (zip outputs prompts))"
  unfolding predictions_of_def
proof (rule map_result_total)
  fix x
  assume "x \<in> set (zip outputs prompts)"
  then have "fst x \<in> set outputs" by (metis set_zip_leftD prod.collapse)
  with assms have "fst x \<noteq> []" by blast
  then show "(case x of (output, prompt) \<Rightarrow>
      bind_result (first_generated output) (\<lambda>g. Inr (drop (length prompt) g))) =
    Inr (case x of (output, prompt) \<Rightarrow> drop (length prompt) (hd output))"
    by (cases x; cases "fst x") (simp_all add: first_generated_def bind_result_def)
qed

text \<open>
  Claim C8. When the pipeline returns one output per prompt, each with at least one
  generated sequence, line 134 yields exactly one prediction per prompt, in the order of
  the prompts: the prediction at an index is the text of the first sequence of the output
  at that index without its first \<open>length prompt\<close> characters. When that text starts with
  the prompt, the prediction is what follows the prompt.
\<close>

theorem predictions_trimmed:
  assumes "length outputs = length prompts"
    and "\<forall>output \<in> set outputs. output \<noteq> []"
  shows "\<exists>predictions. predictions_of outputs prompts = Inr predictions \<and>
    length predictions = length prompts \<and>
    (\<forall>i < length prompts.
       predictions ! i = drop (length (prompts ! i)) (hd (outputs ! i)) \<and>
       (\<forall>continuation. hd (outputs ! i) = prompts ! i @ continuation \<longrightarrow>
          predictions ! i = continuation))"
proof -
  let ?ps = "map (\<lambda>(output, prompt). drop (length prompt) (hd output)) (zip outputs prompts)"
  have a: "predictions_of outputs prompts = Inr ?ps"
    by (rule predictions_of_total [OF assms(2)])
  have b: "length ?ps = length prompts" using assms(1) by simp
  have c: "\<forall>i < length prompts.
       ?ps ! i = drop (length (prompts ! i)) (hd (outputs ! i)) \<and>
       (\<forall>continuation. hd (outputs ! i) = prompts ! i @ continuation \<longrightarrow>
          ?ps ! i = continuation)"
    using assms(1) by simp
  from a b c show ?thesis by blast
qed

theorem predictions_trimmed_witness:
  "predictions_of [[''Q:uno'', ''Q:other''], [''Q:dos'']] [''Q:'', ''Q:''] = Inr [''uno'', ''dos'']"
proof -
  have l: "length [[''Q:uno'', ''Q:other''], [''Q:dos'']] = length [''Q:'', ''Q:'']" by simp
  have n: "\<forall>output \<in> set [[''Q:uno'', ''Q:other''], [''Q:dos'']]. output \<noteq> []" by simp
  from predictions_trimmed [OF l n] show ?thesis
    by (simp add: predictions_of_def first_generated_def bind_result_def)
qed

section \<open>The report\<close>

lemma print_examples_all:
  assumes "\<forall>i \<in> set idxs. i < length predictions \<and> i < length references \<and> references ! i \<noteq> []"
  shows "print_examples idxs predictions references out =
    (out @ concat (map (\<lambda>i. [''system: '' @ predictions ! i,
                              ''reference: '' @ hd (references ! i)]) idxs), None)"
  using assms
proof (induction idxs arbitrary: out)
  case Nil
  then show ?case by simp
next
  case (Cons i idxs)
  then obtain ref tail where "references ! i = ref # tail" by (cases "references ! i") auto
  with Cons show ?case by simp
qed

lemma print_examples_append:
  "print_examples (xs @ ys) predictions references out =
    (case print_examples xs predictions references out of
       (out1, None) \<Rightarrow> print_examples ys predictions references out1
     | (out1, Some e) \<Rightarrow> (out1, Some e))"
  by (induction xs arbitrary: out) (auto split: list.splits)

text \<open>
  Claim C10, as amended. When the reporting block is reached with at least ten
  predictions and at least ten references, each with a first element, it completes, and
  the console ends with an empty line, the banner, and for each of the indices 0 to 9
  the prediction and the first reference at that index.
\<close>

theorem report_ten_pairs:
  assumes "10 \<le> length predictions" and "10 \<le> length references"
    and "\<forall>i < 10. references ! i \<noteq> []"
  shows "report predictions references out =
    (out @ [[], ''------------- example -------------''] @
       concat (map (\<lambda>i. [''system: '' @ predictions ! i,
                          ''reference: '' @ hd (references ! i)]) [0..<10]), None)"
  unfolding report_def
  using print_examples_all [of "[0..<10]" predictions references] assms by simp

lemma report_short:
  assumes "length predictions < 10" and "length references = length predictions"
    and "\<forall>i < length references. references ! i \<noteq> []"
  shows "report predictions references out =
    (out @ [[], ''------------- example -------------''] @
       concat (map (\<lambda>i. [''system: '' @ predictions ! i,
                          ''reference: '' @ hd (references ! i)]) [0..<length predictions]),
     Some IndexError)"
proof -
  let ?n = "length predictions"
  have "[0..<?n + (10 - ?n)] = [0..<?n] @ [?n..<?n + (10 - ?n)]"
    by (rule upt_add_eq_append) simp
  moreover have "[?n..<10] = ?n # [Suc ?n..<10]"
    using assms(1) by (rule upt_conv_Cons)
  ultimately have split: "[0..<10] = [0..<?n] @ ?n # [Suc ?n..<10]"
    using assms(1) by simp
  have first: "print_examples [0..<?n] predictions references
      (out @ [[], ''------------- example -------------'']) =
    ((out @ [[], ''------------- example -------------'']) @
       concat (map (\<lambda>i. [''system: '' @ predictions ! i,
                          ''reference: '' @ hd (references ! i)]) [0..<?n]), None)"
    by (rule print_examples_all) (use assms in auto)
  show ?thesis
    unfolding report_def split print_examples_append first by simp
qed

lemma report_eleven:
  "report eleven_predictions eleven_references [''before''] =
    ([''before'', [], ''------------- example -------------'',
      ''system: p0'', ''reference: r0'', ''system: p1'', ''reference: r1'',
      ''system: p2'', ''reference: r2'', ''system: p3'', ''reference: r3'',
      ''system: p4'', ''reference: r4'', ''system: p5'', ''reference: r5'',
      ''system: p6'', ''reference: r6'', ''system: p7'', ''reference: r7'',
      ''system: p8'', ''reference: r8'', ''system: p9'', ''reference: r9''], None)"
  by code_simp

theorem report_ten_pairs_witness:
  "10 \<le> length eleven_predictions \<and> 10 \<le> length eleven_references \<and>
   report eleven_predictions eleven_references [''before''] =
    ([''before'', [], ''------------- example -------------'',
      ''system: p0'', ''reference: r0'', ''system: p1'', ''reference: r1'',
      ''system: p2'', ''reference: r2'', ''system: p3'', ''reference: r3'',
      ''system: p4'', ''reference: r4'', ''system: p5'', ''reference: r5'',
      ''system: p6'', ''reference: r6'', ''system: p7'', ''reference: r7'',
      ''system: p8'', ''reference: r8'', ''system: p9'', ''reference: r9''], None)"
proof -
  have lp: "10 \<le> length eleven_predictions" by (simp add: eleven_predictions_def)
  have len: "length eleven_references = 11" by (simp add: eleven_references_def)
  then have lr: "10 \<le> length eleven_references" by simp
  have ne: "\<forall>r \<in> set eleven_references. r \<noteq> []" by (simp add: eleven_references_def)
  have h: "\<forall>i < 10. eleven_references ! i \<noteq> []"
  proof (intro allI impI)
    fix i :: nat
    assume "i < 10"
    with len have "eleven_references ! i \<in> set eleven_references" by (intro nth_mem) simp
    with ne show "eleven_references ! i \<noteq> []" by blast
  qed
  from report_ten_pairs [OF lp lr h, of "[''before'']"] report_eleven lp lr
  show ?thesis by simp
qed

text \<open>
  The claim as first stated fails: with three predictions the block prints three pairs,
  then the read of \<^verbatim>\<open>predictions[3]\<close> raises \<^verbatim>\<open>IndexError\<close>, so the console does not
  end with ten pairs.
\<close>

theorem report_ten_pairs_counterexample:
  "report three_predictions three_references [] =
    ([[], ''------------- example -------------'',
      ''system: p0'', ''reference: r0'', ''system: p1'', ''reference: r1'',
      ''system: p2'', ''reference: r2''], Some IndexError)"
  by code_simp

section \<open>The saved artifacts of fine-tuning\<close>

text \<open>
  Claim C9. The saving block of the fine-tuning script completes and leaves on disk: the
  trained adapter under the new-model path with \<^verbatim>\<open>-lora\<close> appended, and under the
  new-model path itself the base model merged with that adapter and the tokenizer files.
  The two paths differ, so the two later saves do not touch the adapter directory: it
  holds the adapter, and neither a merged model nor tokenizer files are written there.
  No other adapter directory changes.
\<close>

theorem adapter_and_merged_saved:
  "\<exists>d'. save_and_merge new_model adapter base merge tokenizer d =
      Inr (d', [''Model training complete and peft adapter saved to: '' @ new_model @ ''-lora'',
                ''Model load complete and full model saved to: '' @ new_model]) \<and>
    adapters d' (new_model @ ''-lora'') = Some adapter \<and>
    models d' new_model = Some (merge base adapter) \<and>
    tokenizers d' new_model = Some tokenizer \<and>
    new_model @ ''-lora'' \<noteq> new_model \<and>
    models d' (new_model @ ''-lora'') = models d (new_model @ ''-lora'') \<and>
    tokenizers d' (new_model @ ''-lora'') = tokenizers d (new_model @ ''-lora'') \<and>
    (\<forall>path. path \<noteq> new_model @ ''-lora'' \<longrightarrow> adapters d' path = adapters d path)"
  by (simp add: save_and_merge_def save_adapter_def save_model_def save_tokenizer_def
      load_adapter_def bind_result_def Let_def)

theorem adapter_and_merged_saved_witness:
  "save_and_merge ''out'' 1 2 (\<lambda>b w. b + w) ''tok'' empty_disk =
     Inr (\<lparr>adapters = [''out-lora'' \<mapsto> 1], models = [''out'' \<mapsto> 3],
           tokenizers = [''out'' \<mapsto> ''tok'']\<rparr>,
          [''Model training complete and peft adapter saved to: out-lora'',
           ''Model load complete and full model saved to: out''])"
  using adapter_and_merged_saved [of "''out''" 1 2 "\<lambda>b w. b + w" "''tok''" empty_disk]
  by (simp add: save_and_merge_def save_adapter_def save_model_def save_tokenizer_def
      load_adapter_def bind_result_def Let_def empty_disk_def numeral_3_eq_3)

end
